theory Spec2Isabelle
  imports Complex_Main "HOL-Library.Sublist"
begin

section \<open>Tensors\<close>

text \<open>
  The model of \<^verbatim>\<open>src/path_integration/model_lstm.py\<close>. A torch tensor is its shape
  together with its elements in row-major order. Elements are real numbers: the rounding
  of 32-bit floats is not part of the model. The library's random number generator is
  made explicit: every sampling operation takes the stream of numbers it draws
  (position \<open>i\<close> of the stream fills element \<open>i\<close> of the sampled tensor).
\<close>

record tensor =
  shape :: "nat list"
  vals :: "real list"

definition numel :: "nat list \<Rightarrow> nat" where
  "numel s = prod_list s"

text \<open>\<open>rows_of k n xs\<close>: the first \<open>k\<close> consecutive rows of width \<open>n\<close> of a flat list.\<close>

definition rows_of :: "nat \<Rightarrow> nat \<Rightarrow> 'a list \<Rightarrow> 'a list list" where
  "rows_of k n xs = map (\<lambda>i. take n (drop (i * n) xs)) [0..<k]"

text \<open>\<^verbatim>\<open>tensor.new_empty(s).normal_()\<close>: a tensor of shape \<open>s\<close> filled from the stream
  of standard-normal draws \<open>g\<close>.\<close>

definition normal_inplace :: "(nat \<Rightarrow> real) \<Rightarrow> nat list \<Rightarrow> tensor" where
  "normal_inplace g s = \<lparr>shape = s, vals = map g [0..<numel s]\<rparr>"

fun first_index :: "('a \<Rightarrow> bool) \<Rightarrow> 'a list \<Rightarrow> nat" where
  "first_index P [] = 0"
| "first_index P (x # xs) = (if P x then 0 else Suc (first_index P xs))"

text \<open>\<^verbatim>\<open>row.max(-1)\<close> on one row of a boolean tensor: the maximal value
  (\<open>False < True\<close>) and the index of its first occurrence.\<close>

definition max_last :: "bool list \<Rightarrow> bool \<times> nat" where
  "max_last bs = (let m = foldr max bs False in (m, first_index (\<lambda>b. b = m) bs))"

section \<open>Truncated-normal initialisation\<close>

text \<open>
  \<^verbatim>\<open>
  def truncated_normal_(tensor, mean=0, std=1):
      size = tensor.shape
      tmp = tensor.new_empty(size + (4,)).normal_()
      valid = (tmp < 2) & (tmp > -2)
      ind = valid.max(-1, keepdim=True)[1]
      tensor.data.copy_(tmp.gather(-1, ind).squeeze(-1))
      tensor.data.mul_(std).add_(mean)
      return tensor
  \<close>
  (An Isabelle name cannot end in an underscore, hence \<open>_inplace\<close>; the source's
  \<^verbatim>\<open>size\<close> is \<open>sz\<close>, since \<open>size\<close> is a constant of HOL.)
\<close>

definition truncated_normal_inplace :: "(nat \<Rightarrow> real) \<Rightarrow> tensor \<Rightarrow> real \<Rightarrow> real \<Rightarrow> tensor" where
  "truncated_normal_inplace g tensor mean std =
    (let sz = shape tensor;
         tmp = rows_of (numel sz) 4 (vals (normal_inplace g (sz @ [4])));
         valid = map (map (\<lambda>v. v < 2 \<and> v > -2)) tmp;
         ind = map (\<lambda>bs. snd (max_last bs)) valid;
         picked = map2 (\<lambda>r i. r ! i) tmp ind
     in tensor\<lparr>vals := map (\<lambda>v. v * std + mean) picked\<rparr>)"

text \<open>
  \<^verbatim>\<open>
  def init_trunc_normal(t, size):
      std = 1.0 / np.sqrt(size)
      return truncated_normal_(t, 0, std)
  \<close>
\<close>

definition init_trunc_normal :: "(nat \<Rightarrow> real) \<Rightarrow> tensor \<Rightarrow> nat \<Rightarrow> tensor" where
  "init_trunc_normal g t sz = (let std = 1 / sqrt (real sz) in truncated_normal_inplace g t 0 std)"

text \<open>The four candidate draws of element \<open>i\<close>, and the candidate the code keeps.\<close>

definition candidates :: "(nat \<Rightarrow> real) \<Rightarrow> nat \<Rightarrow> real list" where
  "candidates g i = map g [4 * i..<4 * i + 4]"

definition in_range :: "real \<Rightarrow> bool" where
  "in_range v = (v < 2 \<and> v > -2)"

definition kept :: "real list \<Rightarrow> real" where
  "kept ds = (case filter in_range ds of [] \<Rightarrow> ds ! 0 | d # _ \<Rightarrow> d)"

text \<open>The selection as the specification words it: the first draw inside \<open>(-2, 2)\<close>, and
  when there is none the draw nearest to that range.\<close>

definition spec_kept :: "real list \<Rightarrow> real" where
  "spec_kept ds = (case filter in_range ds of [] \<Rightarrow> arg_min_list abs ds | d # _ \<Rightarrow> d)"


text \<open>A stream that repeats a finite list of draws, for concrete runs.\<close>

definition stream_of :: "'a list \<Rightarrow> nat \<Rightarrow> 'a" where
  "stream_of ds i = ds ! (i mod length ds)"

section \<open>Library operations\<close>

text \<open>
  The operations of numpy and torch that the module calls, as far as the module uses
  them. Python exceptions are values of \<open>error\<close>; \<open>Unmodelled\<close> marks an input for
  which this model gives no account of the library's behaviour (it is never reached from
  a freshly constructed model on well-shaped inputs).
\<close>

datatype error = IndexError | ValueError | TypeError | FileNotFoundError | RuntimeError | Unmodelled

definition wf_tensor :: "tensor \<Rightarrow> bool" where
  "wf_tensor t = (length (vals t) = numel (shape t))"

text \<open>Python's \<^verbatim>\<open>xs[i]\<close> for a non-negative index.\<close>

definition py_index :: "'a list \<Rightarrow> nat \<Rightarrow> error + 'a" where
  "py_index xs i = (if i < length xs then Inr (xs ! i) else Inl IndexError)"

text \<open>\<^verbatim>\<open>torch.empty(s)\<close>; the uninitialised memory is read nowhere, the model fills it
  with zeros. \<^verbatim>\<open>nn.init.zeros_\<close> and \<^verbatim>\<open>uniform_(a, b)\<close>, the latter from a stream
  \<open>u\<close> of draws from \<open>[0, 1)\<close>.\<close>

definition empty_tensor :: "nat list \<Rightarrow> tensor" where
  "empty_tensor s = \<lparr>shape = s, vals = replicate (numel s) 0\<rparr>"

definition zeros_inplace :: "tensor \<Rightarrow> tensor" where
  "zeros_inplace t = t\<lparr>vals := replicate (numel (shape t)) 0\<rparr>"

definition uniform_inplace :: "(nat \<Rightarrow> real) \<Rightarrow> tensor \<Rightarrow> real \<Rightarrow> real \<Rightarrow> tensor" where
  "uniform_inplace u t a b = t\<lparr>vals := map (\<lambda>i. a + (b - a) * u i) [0..<numel (shape t)]\<rparr>"

text \<open>\<^verbatim>\<open>nn.init.kaiming_uniform_(t)\<close> with its defaults (\<open>a = 0\<close>, fan-in mode,
  leaky-relu gain \<open>sqrt 2\<close>): uniform on \<open>(-bound, bound)\<close> with
  \<open>bound = sqrt 3 * (sqrt 2 / sqrt fan_in)\<close>, the fan-in being the number of elements of
  one slice along the first dimension; a tensor without elements is left alone. (The
  module calls it on two-dimensional tensors; the library refuses fewer dimensions.)\<close>

definition kaiming_uniform_inplace :: "(nat \<Rightarrow> real) \<Rightarrow> tensor \<Rightarrow> tensor" where
  "kaiming_uniform_inplace u t =
    (if numel (shape t) = 0 then t
     else let fan_in = numel (tl (shape t));
              bound = sqrt 3 * (sqrt 2 / sqrt (real fan_in))
          in uniform_inplace u t (- bound) bound)"

text \<open>\<^verbatim>\<open>t.squeeze()\<close> drops every dimension of size one; \<^verbatim>\<open>t.unsqueeze(0)\<close> adds a
  leading one.\<close>

definition squeeze :: "tensor \<Rightarrow> tensor" where
  "squeeze t = t\<lparr>shape := filter (\<lambda>d. d \<noteq> 1) (shape t)\<rparr>"

definition unsqueeze0 :: "tensor \<Rightarrow> tensor" where
  "unsqueeze0 t = t\<lparr>shape := 1 # shape t\<rparr>"

text \<open>\<^verbatim>\<open>t.view(1, b, -1)\<close>: the last size is inferred from the number of elements.\<close>

definition view_1_b :: "tensor \<Rightarrow> nat \<Rightarrow> error + tensor" where
  "view_1_b t b =
    (if b = 0 then Inl RuntimeError
     else if numel (shape t) mod b = 0 then Inr (t\<lparr>shape := [1, b, numel (shape t) div b]\<rparr>)
     else Inl RuntimeError)"

text \<open>Iterating a tensor (\<^verbatim>\<open>for t in x\<close>) yields its slices along the first dimension.\<close>

definition unbind0 :: "tensor \<Rightarrow> tensor list" where
  "unbind0 x =
    (let n = numel (tl (shape x))
     in map (\<lambda>i. \<lparr>shape = tl (shape x), vals = take n (drop (i * n) (vals x))\<rparr>) [0..<hd (shape x)])"

text \<open>\<^verbatim>\<open>torch.stack(ts)\<close>: a new leading dimension; the list must be non-empty and all
  shapes equal.\<close>

definition stack :: "tensor list \<Rightarrow> error + tensor" where
  "stack ts =
    (case ts of
       [] \<Rightarrow> Inl RuntimeError
     | t # _ \<Rightarrow>
         if list_all (\<lambda>t'. shape t' = shape t) ts
         then Inr \<lparr>shape = length ts # shape t, vals = concat (map vals ts)\<rparr>
         else Inl RuntimeError)"

text \<open>\<^verbatim>\<open>torch.cat(ts, dim=1)\<close>: every tensor has at least two dimensions, and all agree
  outside dimension 1. (The library skips tensors of shape \<open>[0]\<close>, a legacy rule that is
  not modelled.)\<close>

definition cat1 :: "tensor list \<Rightarrow> error + tensor" where
  "cat1 ts =
    (case ts of
       [] \<Rightarrow> Inl RuntimeError
     | t # _ \<Rightarrow>
         if list_ex (\<lambda>t'. shape t' = [0]) ts then Inl Unmodelled
         else if list_ex (\<lambda>t'. length (shape t') < 2) ts then Inl IndexError
         else if list_all (\<lambda>t'. hd (shape t') = hd (shape t) \<and> drop 2 (shape t') = drop 2 (shape t)) ts
         then let p = numel (drop 2 (shape t))
              in Inr \<lparr>shape = hd (shape t) # sum_list (map (\<lambda>t'. shape t' ! 1) ts) # drop 2 (shape t),
                      vals = concat (map (\<lambda>i. concat (map (\<lambda>t'. take (shape t' ! 1 * p)
                                 (drop (i * (shape t' ! 1 * p)) (vals t'))) ts)) [0..<hd (shape t)])\<rparr>
         else Inl RuntimeError)"

text \<open>numpy's \<^verbatim>\<open>a.T\<close> reverses the axes of an array (the identity below two
  dimensions, the matrix transpose at two); \<^verbatim>\<open>t.transpose(1, 0)\<close> swaps the first
  two dimensions of a tensor and needs two of them.\<close>

fun np_T_vals :: "nat list \<Rightarrow> real list \<Rightarrow> real list" where
  "np_T_vals [] vs = vs"
| "np_T_vals (d # ds) vs =
     (if numel (d # ds) = 0 then []
      else concat (transpose (map (np_T_vals ds) (rows_of d (numel ds) vs))))"

definition np_T :: "tensor \<Rightarrow> tensor" where
  "np_T a = \<lparr>shape = rev (shape a), vals = np_T_vals (shape a) (vals a)\<rparr>"

definition transpose_1_0 :: "tensor \<Rightarrow> error + tensor" where
  "transpose_1_0 t =
    (case shape t of
       d0 # d1 # ds \<Rightarrow>
         Inr \<lparr>shape = d1 # d0 # ds,
              vals = concat (concat (transpose (rows_of d0 d1 (rows_of (d0 * d1) (numel ds) (vals t)))))\<rparr>
     | _ \<Rightarrow> Inl IndexError)"

text \<open>\<^verbatim>\<open>np.load(path)\<close>: the file system maps a path to the array stored there.\<close>

definition np_load :: "(string \<rightharpoonup> tensor) \<Rightarrow> string \<Rightarrow> error + tensor" where
  "np_load fs path = (case fs path of None \<Rightarrow> Inl FileNotFoundError | Some a \<Rightarrow> Inr a)"

text \<open>\<^verbatim>\<open>t.norm(p)\<close> over all elements of a tensor, for \<open>p \<ge> 1\<close>.\<close>

definition norm_p :: "nat \<Rightarrow> tensor \<Rightarrow> real" where
  "norm_p p t = root p (\<Sum>v\<leftarrow>vals t. \<bar>v\<bar> ^ p)"

subsection \<open>Modules\<close>

text \<open>\<^verbatim>\<open>nn.Linear\<close>: \<open>weight\<close> has shape \<open>[out_features, in_features]\<close>, \<open>bias\<close> is absent
  or has shape \<open>[out_features]\<close>.\<close>

record Linear =
  weight :: tensor
  bias :: "tensor option"

text \<open>The sources of randomness: every sampling call site has its own stream, named by
  the parameter it fills.\<close>

record rng =
  normal_draws :: "string \<Rightarrow> nat \<Rightarrow> real"
  uniform_draws :: "string \<Rightarrow> nat \<Rightarrow> real"

text \<open>\<^verbatim>\<open>nn.Linear(in_features, out_features, bias)\<close> with the library's default
  initialisation, uniform on \<open>(-1 / sqrt in_features, 1 / sqrt in_features)\<close>.\<close>

definition nn_Linear :: "rng \<Rightarrow> string \<Rightarrow> nat \<Rightarrow> nat \<Rightarrow> bool \<Rightarrow> Linear" where
  "nn_Linear r name in_features out_features has_bias =
    (let bound = (if in_features > 0 then 1 / sqrt (real in_features) else 0)
     in \<lparr>weight = uniform_inplace (uniform_draws r (name @ ''.weight''))
                    (empty_tensor [out_features, in_features]) (- bound) bound,
         bias = (if has_bias
                 then Some (uniform_inplace (uniform_draws r (name @ ''.bias''))
                              (empty_tensor [out_features]) (- bound) bound)
                 else None)\<rparr>)"

definition dot :: "real list \<Rightarrow> real list \<Rightarrow> real" where
  "dot xs ys = sum_list (map2 (*) xs ys)"

text \<open>\<^verbatim>\<open>F.linear(input, weight, bias)\<close>: every row of the input (its last dimension) is
  mapped to \<open>weight \<cdot> row + bias\<close>.\<close>

definition linear_forward :: "Linear \<Rightarrow> tensor \<Rightarrow> error + tensor" where
  "linear_forward l input =
    (case shape (weight l) of
       [out_f, in_f] \<Rightarrow>
         (if (case bias l of None \<Rightarrow> True | Some b \<Rightarrow> shape b = [out_f])
          then (if shape input = [] then Inl RuntimeError
                else if last (shape input) = in_f
                then Inr \<lparr>shape = butlast (shape input) @ [out_f],
                          vals = concat (map (\<lambda>row. map (\<lambda>k.
                                     dot (take in_f (drop (k * in_f) (vals (weight l)))) row
                                     + (case bias l of None \<Rightarrow> 0 | Some b \<Rightarrow> vals b ! k)) [0..<out_f])
                                   (rows_of (numel (butlast (shape input))) in_f (vals input)))\<rparr>
                else Inl RuntimeError)
          else Inl Unmodelled)
     | _ \<Rightarrow> Inl Unmodelled)"

text \<open>\<^verbatim>\<open>nn.LSTM(input_size, hidden_size)\<close>, one layer. The four parameters the
  recurrence reads are \<open>weight_ih_l0\<close>, \<open>weight_hh_l0\<close>, \<open>bias_ih_l0\<close> and \<open>bias_hh_l0\<close>.
  \<open>lstm_weight\<close> is the attribute \<^verbatim>\<open>self.lstm.weight\<close>, which the library does not
  define: it is \<open>None\<close> until assigned, and the library never reads it. \<open>lstm_bias\<close> is
  the attribute \<^verbatim>\<open>self.lstm.bias\<close>, in which the library keeps the flag that the cell
  has biases (\<^verbatim>\<open>True\<close> here): \<open>None\<close> stands for the flag as constructed, \<open>Some t\<close> for
  a tensor assigned over it. The forward pass hands this attribute to the kernel, which
  accepts only the flag.\<close>

record LSTM =
  input_size :: nat
  hidden_size :: nat
  weight_ih_l0 :: tensor
  weight_hh_l0 :: tensor
  bias_ih_l0 :: tensor
  bias_hh_l0 :: tensor
  lstm_weight :: "tensor option"
  lstm_bias :: "tensor option"

text \<open>The module as \<^verbatim>\<open>nn.LSTM\<close> initialises it, with every parameter uniform on
  \<open>(-1 / sqrt hidden_size, 1 / sqrt hidden_size)\<close>; the constructor refuses a hidden size
  that is not positive.\<close>

definition lstm_parameters :: "rng \<Rightarrow> string \<Rightarrow> nat \<Rightarrow> nat \<Rightarrow> LSTM" where
  "lstm_parameters r name input_sz hidden_sz =
    (let bound = (if hidden_sz > 0 then 1 / sqrt (real hidden_sz) else 0);
         param = (\<lambda>suffix s. uniform_inplace (uniform_draws r (name @ suffix)) (empty_tensor s) (- bound) bound)
     in \<lparr>input_size = input_sz, hidden_size = hidden_sz,
         weight_ih_l0 = param ''.weight_ih_l0'' [4 * hidden_sz, input_sz],
         weight_hh_l0 = param ''.weight_hh_l0'' [4 * hidden_sz, hidden_sz],
         bias_ih_l0 = param ''.bias_ih_l0'' [4 * hidden_sz],
         bias_hh_l0 = param ''.bias_hh_l0'' [4 * hidden_sz],
         lstm_weight = None, lstm_bias = None\<rparr>)"

definition nn_LSTM :: "rng \<Rightarrow> string \<Rightarrow> nat \<Rightarrow> nat \<Rightarrow> error + LSTM" where
  "nn_LSTM r name input_sz hidden_sz =
    (if hidden_sz = 0 then Inl ValueError else Inr (lstm_parameters r name input_sz hidden_sz))"

definition sigmoid :: "real \<Rightarrow> real" where
  "sigmoid z = 1 / (1 + exp (- z))"

text \<open>One LSTM step for one batch element: gates in the order input, forget, cell,
  output.\<close>

definition lstm_cell :: "LSTM \<Rightarrow> real list \<Rightarrow> real list \<times> real list \<Rightarrow> real list \<times> real list" where
  "lstm_cell l x hc =
    (let n = hidden_size l;
         h = fst hc;
         c = snd hc;
         gates = map (\<lambda>k. dot (take (input_size l) (drop (k * input_size l) (vals (weight_ih_l0 l)))) x
                          + vals (bias_ih_l0 l) ! k
                          + dot (take n (drop (k * n) (vals (weight_hh_l0 l)))) h
                          + vals (bias_hh_l0 l) ! k) [0..<4 * n];
         c' = map (\<lambda>k. sigmoid (gates ! (n + k)) * c ! k + sigmoid (gates ! k) * tanh (gates ! (2 * n + k))) [0..<n];
         h' = map (\<lambda>k. sigmoid (gates ! (3 * n + k)) * tanh (c' ! k)) [0..<n]
     in (h', c'))"

text \<open>The steps of a sequence: each element of \<open>xss\<close> is one time step, a list of batch
  rows. Returns the hidden rows of every step and the final state.\<close>

fun lstm_seq :: "LSTM \<Rightarrow> (real list \<times> real list) list \<Rightarrow> real list list list
    \<Rightarrow> real list list list \<times> (real list \<times> real list) list" where
  "lstm_seq l hcs [] = ([], hcs)"
| "lstm_seq l hcs (xb # xss) =
     (let hcs' = map2 (lstm_cell l) xb hcs;
          r = lstm_seq l hcs' xss
      in (map fst hcs' # fst r, snd r))"

text \<open>\<^verbatim>\<open>self.lstm(input, (h0, c0))\<close> for a batched (three-dimensional) input: returns
  \<^verbatim>\<open>(output, (h_n, c_n))\<close>. The library checks the last size of the input against
  \<open>input_size\<close> and both states against \<open>[1, batch, hidden_size]\<close>, and then calls the
  kernel, which raises \<open>TypeError\<close> when \<^verbatim>\<open>self.bias\<close> is no longer the flag.\<close>

definition lstm_forward :: "LSTM \<Rightarrow> tensor \<Rightarrow> tensor \<times> tensor \<Rightarrow> error + (tensor \<times> tensor \<times> tensor)" where
  "lstm_forward l input hx =
    (case shape input of
       [len, b, i] \<Rightarrow>
         (if shape (weight_ih_l0 l) = [4 * hidden_size l, input_size l]
             \<and> shape (weight_hh_l0 l) = [4 * hidden_size l, hidden_size l]
             \<and> shape (bias_ih_l0 l) = [4 * hidden_size l]
             \<and> shape (bias_hh_l0 l) = [4 * hidden_size l]
          then (if length (shape (fst hx)) = 3 \<and> length (shape (snd hx)) = 3
                then (if i = input_size l
                      then (if shape (fst hx) = [1, b, hidden_size l]
                            then (if shape (snd hx) = [1, b, hidden_size l]
                                  then (case lstm_bias l of
                                          Some t \<Rightarrow> Inl TypeError
                                        | None \<Rightarrow>
                                            (let n = hidden_size l;
                                                 hcs = zip (rows_of b n (vals (fst hx))) (rows_of b n (vals (snd hx)));
                                                 r = lstm_seq l hcs (rows_of len b (rows_of (len * b) i (vals input)))
                                             in Inr (\<lparr>shape = [len, b, n], vals = concat (concat (fst r))\<rparr>,
                                                     \<lparr>shape = [1, b, n], vals = concat (map fst (snd r))\<rparr>,
                                                     \<lparr>shape = [1, b, n], vals = concat (map snd (snd r))\<rparr>)))
                                  else Inl RuntimeError)
                            else Inl RuntimeError)
                      else Inl RuntimeError)
                else Inl RuntimeError)
          else Inl Unmodelled)
     | _ \<Rightarrow> Inl Unmodelled)"

text \<open>\<^verbatim>\<open>nn.Dropout(p)\<close> applied to a tensor. In training mode the elements are dropped
  by a mask (here \<open>keep\<close>, drawn by the library with probability \<open>1 - p\<close> each) and the
  kept ones scaled by \<open>1 / (1 - p)\<close>; in evaluation mode the input is returned.\<close>

definition dropout_forward :: "bool \<Rightarrow> real \<Rightarrow> (nat \<Rightarrow> bool) \<Rightarrow> tensor \<Rightarrow> tensor" where
  "dropout_forward train p keep t =
    (if train
     then (if p = 0 then t
           else if p = 1 then t\<lparr>vals := map (\<lambda>v. 0) (vals t)\<rparr>
           else t\<lparr>vals := map (\<lambda>(j, v). if keep j then v / (1 - p) else 0) (zip [0..<length (vals t)] (vals t))\<rparr>)
     else t)"

section \<open>The model class\<close>

text \<open>A target ensemble is an object with a number of cells \<^verbatim>\<open>n_cells\<close>.\<close>

record ensemble =
  n_cells :: nat

text \<open>The attributes of a \<^verbatim>\<open>GridTorch\<close> instance. \<open>dropout\<close> is the rate of the
  \<^verbatim>\<open>nn.Dropout\<close> module; \<open>training\<close> is the mode flag of \<^verbatim>\<open>nn.Module\<close>, set at
  construction and cleared by \<^verbatim>\<open>eval()\<close>.\<close>

record GridTorch =
  target_ensembles :: "ensemble list"
  state_embed :: Linear
  cell_embed :: Linear
  lstm :: LSTM
  bottleneck :: Linear
  pc_logits :: Linear
  hd_logits :: Linear
  dropout :: real
  training :: bool

definition eval_mode :: "GridTorch \<Rightarrow> GridTorch" where
  "eval_mode m = m\<lparr>training := False\<rparr>"

text \<open>\<^verbatim>\<open>nn.Dropout(p)\<close> refuses a rate outside \<open>[0, 1]\<close>.\<close>

definition nn_Dropout :: "real \<Rightarrow> error + real" where
  "nn_Dropout p = (if p < 0 then Inl ValueError else if 1 < p then Inl ValueError else Inr p)"

subsection \<open>Loading pretrained weights\<close>

text \<open>
  \<^verbatim>\<open>
  def load_tf_param(loc):
      return nn.Parameter(torch.Tensor(np.load(loc).T))
  \<close>
\<close>

definition load_tf_param :: "(string \<rightharpoonup> tensor) \<Rightarrow> string \<Rightarrow> error + tensor" where
  "load_tf_param fs loc = (case np_load fs loc of Inl e \<Rightarrow> Inl e | Inr a \<Rightarrow> Inr (np_T a))"

text \<open>
  The state of a loading call: the model being mutated and the paths handed to
  \<^verbatim>\<open>np.load\<close> so far. A statement returns the exception it raised, if any, and the
  state it leaves. \<open>exec\<close> runs statements in order and stops at the first exception.
\<close>

type_synonym load_state = "GridTorch \<times> string list"

type_synonym stmt = "load_state \<Rightarrow> error option \<times> load_state"

fun exec :: "stmt list \<Rightarrow> stmt" where
  "exec [] s = (None, s)"
| "exec (c # cs) s = (case c s of (Some e, s') \<Rightarrow> (Some e, s') | (None, s') \<Rightarrow> exec cs s')"

text \<open>\<^verbatim>\<open>self.<param> = nn.Parameter(torch.Tensor(np.load(path).T))\<close>, where \<open>upd\<close>
  stores the parameter.\<close>

definition assign_loaded :: "(string \<rightharpoonup> tensor) \<Rightarrow> string \<Rightarrow> (tensor \<Rightarrow> GridTorch \<Rightarrow> GridTorch) \<Rightarrow> stmt" where
  "assign_loaded fs path upd s =
    (case np_load fs path of
       Inl e \<Rightarrow> (Some e, (fst s, snd s @ [path]))
     | Inr a \<Rightarrow> (None, (upd (np_T a) (fst s), snd s @ [path])))"

text \<open>
  \<^verbatim>\<open>
  lstm_ws = nn.Parameter(torch.Tensor(np.load(f"{loc}grid_cells_core_lstm_w_gates_0.npy").T))
  lstm_bs = nn.Parameter(torch.Tensor(np.load(f"{loc}grid_cells_core_lstm_b_gates_0.npy").T))
  self.lstm.weight = nn.Parameter(lstm_ws.transpose(1, 0))
  self.lstm.bias = nn.Parameter(lstm_bs)
  \<close>
\<close>

definition assign_lstm_gates :: "(string \<rightharpoonup> tensor) \<Rightarrow> string \<Rightarrow> stmt" where
  "assign_lstm_gates fs loc s =
    (let w_path = loc @ ''grid_cells_core_lstm_w_gates_0.npy'';
         b_path = loc @ ''grid_cells_core_lstm_b_gates_0.npy''
     in case np_load fs w_path of
          Inl e \<Rightarrow> (Some e, (fst s, snd s @ [w_path]))
        | Inr wa \<Rightarrow>
            (case np_load fs b_path of
               Inl e \<Rightarrow> (Some e, (fst s, snd s @ [w_path, b_path]))
             | Inr ba \<Rightarrow>
                 (let lstm_ws = np_T wa; lstm_bs = np_T ba
                  in case transpose_1_0 lstm_ws of
                       Inl e \<Rightarrow> (Some e, (fst s, snd s @ [w_path, b_path]))
                     | Inr w \<Rightarrow>
                         (None, ((fst s)\<lparr>lstm := (lstm (fst s))\<lparr>lstm_weight := Some w, lstm_bias := Some lstm_bs\<rparr>\<rparr>,
                                 snd s @ [w_path, b_path])))))"

text \<open>
  \<^verbatim>\<open>
  def init_weights_from_file(self, loc):
      self.pc_logits.weight = nn.Parameter(torch.Tensor(np.load(f"{loc}grid_cells_core_pc_logits_w_0.npy").T))
      self.pc_logits.bias = nn.Parameter(torch.Tensor(np.load(f"{loc}grid_cells_core_pc_logits_b_0.npy").T))
      self.hd_logits.weight = nn.Parameter(torch.Tensor(np.load(f"{loc}grid_cells_core_pc_logits_1_w_0.npy").T))
      self.hd_logits.bias = nn.Parameter(torch.Tensor(np.load(f"{loc}grid_cells_core_pc_logits_1_b_0.npy").T))
      self.bottleneck.weight = nn.Parameter(torch.Tensor(np.load(f"{loc}grid_cells_core_bottleneck_w_0.npy").T))
      self.state_embed.weight = nn.Parameter(torch.Tensor(np.load(f"{loc}grid_cell_supervised_state_init_w_0.npy").T))
      self.state_embed.bias = nn.Parameter(torch.Tensor(np.load(f"{loc}grid_cell_supervised_state_init_b_0.npy").T))
      self.cell_embed.weight = nn.Parameter(torch.Tensor(np.load(f"{loc}grid_cell_supervised_cell_init_w_0.npy").T))
      self.cell_embed.bias = nn.Parameter(torch.Tensor(np.load(f"{loc}grid_cell_supervised_cell_init_b_0.npy").T))
      ... (the four statements of assign_lstm_gates)
  \<close>
\<close>

definition init_weights_from_file :: "(string \<rightharpoonup> tensor) \<Rightarrow> string \<Rightarrow> stmt" where
  "init_weights_from_file fs loc =
    exec
     [assign_loaded fs (loc @ ''grid_cells_core_pc_logits_w_0.npy'')
        (\<lambda>a m. m\<lparr>pc_logits := (pc_logits m)\<lparr>weight := a\<rparr>\<rparr>),
      assign_loaded fs (loc @ ''grid_cells_core_pc_logits_b_0.npy'')
        (\<lambda>a m. m\<lparr>pc_logits := (pc_logits m)\<lparr>bias := Some a\<rparr>\<rparr>),
      assign_loaded fs (loc @ ''grid_cells_core_pc_logits_1_w_0.npy'')
        (\<lambda>a m. m\<lparr>hd_logits := (hd_logits m)\<lparr>weight := a\<rparr>\<rparr>),
      assign_loaded fs (loc @ ''grid_cells_core_pc_logits_1_b_0.npy'')
        (\<lambda>a m. m\<lparr>hd_logits := (hd_logits m)\<lparr>bias := Some a\<rparr>\<rparr>),
      assign_loaded fs (loc @ ''grid_cells_core_bottleneck_w_0.npy'')
        (\<lambda>a m. m\<lparr>bottleneck := (bottleneck m)\<lparr>weight := a\<rparr>\<rparr>),
      assign_loaded fs (loc @ ''grid_cell_supervised_state_init_w_0.npy'')
        (\<lambda>a m. m\<lparr>state_embed := (state_embed m)\<lparr>weight := a\<rparr>\<rparr>),
      assign_loaded fs (loc @ ''grid_cell_supervised_state_init_b_0.npy'')
        (\<lambda>a m. m\<lparr>state_embed := (state_embed m)\<lparr>bias := Some a\<rparr>\<rparr>),
      assign_loaded fs (loc @ ''grid_cell_supervised_cell_init_w_0.npy'')
        (\<lambda>a m. m\<lparr>cell_embed := (cell_embed m)\<lparr>weight := a\<rparr>\<rparr>),
      assign_loaded fs (loc @ ''grid_cell_supervised_cell_init_b_0.npy'')
        (\<lambda>a m. m\<lparr>cell_embed := (cell_embed m)\<lparr>bias := Some a\<rparr>\<rparr>),
      assign_lstm_gates fs loc]"

text \<open>The file names a loading call asks for, in the order of the calls.\<close>

definition weight_files :: "string list" where
  "weight_files =
    [''grid_cells_core_pc_logits_w_0.npy'', ''grid_cells_core_pc_logits_b_0.npy'',
     ''grid_cells_core_pc_logits_1_w_0.npy'', ''grid_cells_core_pc_logits_1_b_0.npy'',
     ''grid_cells_core_bottleneck_w_0.npy'',
     ''grid_cell_supervised_state_init_w_0.npy'', ''grid_cell_supervised_state_init_b_0.npy'',
     ''grid_cell_supervised_cell_init_w_0.npy'', ''grid_cell_supervised_cell_init_b_0.npy'',
     ''grid_cells_core_lstm_w_gates_0.npy'', ''grid_cells_core_lstm_b_gates_0.npy'']"

subsection \<open>Construction\<close>

text \<open>
  \<^verbatim>\<open>GridTorch.__init__\<close>, lines 27 to 68 of the source. The arguments are the
  constructor's parameters, after the sources of randomness and the file system. The
  modules are made in the order of lines 41 to 50, so that a recurrent width of zero is
  refused (line 44) before the target ensembles are indexed (lines 47 and 48). The
  \<^verbatim>\<open>weights_loc\<close> argument is \<open>None\<close> or a string; Python's \<^verbatim>\<open>if weights_loc:\<close> skips
  the empty string as well.
\<close>

definition GridTorch_init ::
  "rng \<Rightarrow> (string \<rightharpoonup> tensor) \<Rightarrow> ensemble list \<Rightarrow> nat \<Rightarrow> nat \<Rightarrow> nat \<Rightarrow> nat \<Rightarrow> real \<Rightarrow> bool
    \<Rightarrow> string option \<Rightarrow> error + GridTorch" where
  "GridTorch_init r fs tes nh_lstm nh_bottleneck n_pcs n_hdcs dropoutrates_bottleneck
      bottleneck_has_bias weights_loc =
    (let se = nn_Linear r ''state_embed'' (n_pcs + n_hdcs) nh_lstm True;
         ce = nn_Linear r ''cell_embed'' (n_pcs + n_hdcs) nh_lstm True
     in case nn_LSTM r ''lstm'' 3 nh_lstm of
          Inl e \<Rightarrow> Inl e
        | Inr ls \<Rightarrow>
    (let bn = nn_Linear r ''bottleneck'' nh_lstm nh_bottleneck bottleneck_has_bias
     in case py_index tes 0 of
          Inl e \<Rightarrow> Inl e
        | Inr te0 \<Rightarrow>
       (let pc = nn_Linear r ''pc_logits'' nh_bottleneck (n_cells te0) True
        in case py_index tes 1 of
             Inl e \<Rightarrow> Inl e
           | Inr te1 \<Rightarrow>
          (let hdl = nn_Linear r ''hd_logits'' nh_bottleneck (n_cells te1) True
           in case nn_Dropout dropoutrates_bottleneck of
                Inl e \<Rightarrow> Inl e
              | Inr p \<Rightarrow>
             (let m = \<lparr>target_ensembles = tes,
                       state_embed = se\<lparr>weight := init_trunc_normal (normal_draws r ''state_embed.weight'') (weight se) 128,
                                        bias := map_option zeros_inplace (bias se)\<rparr>,
                       cell_embed = ce\<lparr>weight := init_trunc_normal (normal_draws r ''cell_embed.weight'') (weight ce) 128,
                                       bias := map_option zeros_inplace (bias ce)\<rparr>,
                       lstm = ls\<lparr>weight_ih_l0 := kaiming_uniform_inplace (uniform_draws r ''kaiming.weight_ih_l0'') (weight_ih_l0 ls),
                                 weight_hh_l0 := kaiming_uniform_inplace (uniform_draws r ''kaiming.weight_hh_l0'') (weight_hh_l0 ls),
                                 bias_hh_l0 := zeros_inplace (bias_hh_l0 ls),
                                 bias_ih_l0 := zeros_inplace (bias_ih_l0 ls)\<rparr>,
                       bottleneck = bn\<lparr>weight := init_trunc_normal (normal_draws r ''bottleneck.weight'') (weight bn) 256\<rparr>,
                       pc_logits = pc\<lparr>weight := init_trunc_normal (normal_draws r ''pc_logits.weight'') (weight pc) 256,
                                            bias := map_option zeros_inplace (bias pc)\<rparr>,
                       hd_logits = hdl\<lparr>weight := init_trunc_normal (normal_draws r ''hd_logits.weight'') (weight hdl) 12,
                                            bias := map_option zeros_inplace (bias hdl)\<rparr>,
                       dropout = p,
                       training = True\<rparr>
              in case weights_loc of
                   None \<Rightarrow> Inr m
                 | Some loc \<Rightarrow>
                     if loc = [] then Inr m
                     else (case init_weights_from_file fs loc (m, []) of
                             (Some e, _) \<Rightarrow> Inl e
                           | (None, s) \<Rightarrow> Inr (fst s)))))))"

text \<open>The constructor with every optional argument at its default.\<close>

definition GridTorch_default :: "rng \<Rightarrow> (string \<rightharpoonup> tensor) \<Rightarrow> ensemble list \<Rightarrow> error + GridTorch" where
  "GridTorch_default r fs tes = GridTorch_init r fs tes 128 256 256 12 (1 / 2) False None"

subsection \<open>The regularisation term\<close>

text \<open>
  \<^verbatim>\<open>
  @property
  def l2_loss(self,):
      return self.bottleneck.weight.norm(2) + self.pc_logits.weight.norm(2) + self.hd_logits.weight.norm(2)
  \<close>
\<close>

definition l2_loss :: "GridTorch \<Rightarrow> real" where
  "l2_loss m = norm_p 2 (weight (bottleneck m)) + norm_p 2 (weight (pc_logits m)) + norm_p 2 (weight (hd_logits m))"

subsection \<open>The forward recurrence\<close>

text \<open>The variables of \<^verbatim>\<open>forward\<close> that the loop updates.\<close>

record loop_state =
  h_t :: tensor
  c_t :: tensor
  logits_hd :: "tensor list"
  logits_pc :: "tensor list"
  bottleneck_acts :: "tensor list"
  rnn_states :: "tensor list"
  cell_states :: "tensor list"

text \<open>
  One iteration of the loop, lines 102 to 114. \<open>keep k\<close> is the mask that the dropout
  module draws in iteration \<open>k\<close>.
  \<^verbatim>\<open>
  _, (h_t, c_t) = self.lstm(t.view(1, batch_size, -1), (h_t.unsqueeze(0), c_t.unsqueeze(0)))
  h_t, c_t = h_t.squeeze(), c_t.squeeze()
  bottleneck_activations = self.dropout(self.bottleneck(h_t))
  pc_preds = self.pc_logits(bottleneck_activations)
  hd_preds = self.hd_logits(bottleneck_activations)
  logits_hd += [hd_preds]
  logits_pc += [pc_preds]
  bottleneck_acts += [bottleneck_activations]
  rnn_states += [h_t]
  cell_states += [c_t]
  \<close>
\<close>

definition loop_body :: "GridTorch \<Rightarrow> (nat \<Rightarrow> nat \<Rightarrow> bool) \<Rightarrow> nat \<Rightarrow> loop_state \<Rightarrow> tensor \<Rightarrow> error + loop_state" where
  "loop_body m keep batch_size s t =
    (case view_1_b t batch_size of
       Inl e \<Rightarrow> Inl e
     | Inr tv \<Rightarrow>
    (case lstm_forward (lstm m) tv (unsqueeze0 (h_t s), unsqueeze0 (c_t s)) of
       Inl e \<Rightarrow> Inl e
     | Inr r \<Rightarrow>
    (let h = squeeze (fst (snd r));
         c = squeeze (snd (snd r))
     in case linear_forward (bottleneck m) h of
          Inl e \<Rightarrow> Inl e
        | Inr b \<Rightarrow>
       (let bottleneck_activations = dropout_forward (training m) (dropout m) (keep (length (logits_hd s))) b
        in case linear_forward (pc_logits m) bottleneck_activations of
             Inl e \<Rightarrow> Inl e
           | Inr pc_preds \<Rightarrow>
          (case linear_forward (hd_logits m) bottleneck_activations of
             Inl e \<Rightarrow> Inl e
           | Inr hd_preds \<Rightarrow>
               Inr \<lparr>h_t = h, c_t = c,
                    logits_hd = logits_hd s @ [hd_preds],
                    logits_pc = logits_pc s @ [pc_preds],
                    bottleneck_acts = bottleneck_acts s @ [bottleneck_activations],
                    rnn_states = rnn_states s @ [h],
                    cell_states = cell_states s @ [c]\<rparr>)))))"

text \<open>A \<^verbatim>\<open>for\<close> loop whose body may raise.\<close>

fun for_loop :: "('s \<Rightarrow> 'a \<Rightarrow> error + 's) \<Rightarrow> 'a list \<Rightarrow> 's \<Rightarrow> error + 's" where
  "for_loop f [] s = Inr s"
| "for_loop f (x # xs) s = (case f s x of Inl e \<Rightarrow> Inl e | Inr s' \<Rightarrow> for_loop f xs s')"

text \<open>
  \<^verbatim>\<open>GridTorch.forward(x, initial_conds)\<close>, lines 89 to 124: the five stacked sequences
  in the order head-direction logits, place-cell logits, bottleneck activations, hidden
  states, cell states.
\<close>

definition forward :: "GridTorch \<Rightarrow> (nat \<Rightarrow> nat \<Rightarrow> bool) \<Rightarrow> tensor \<Rightarrow> tensor list
    \<Rightarrow> error + (tensor \<times> tensor \<times> tensor \<times> tensor \<times> tensor)" where
  "forward m keep x initial_conds =
    (case py_index (shape x) 1 of
       Inl e \<Rightarrow> Inl e
     | Inr batch_size \<Rightarrow>
    (case cat1 initial_conds of
       Inl e \<Rightarrow> Inl e
     | Inr init \<Rightarrow>
    (case linear_forward (state_embed m) init of
       Inl e \<Rightarrow> Inl e
     | Inr init_state \<Rightarrow>
    (case linear_forward (cell_embed m) init of
       Inl e \<Rightarrow> Inl e
     | Inr init_cell \<Rightarrow>
    (case for_loop (loop_body m keep batch_size) (unbind0 x)
            \<lparr>h_t = init_state, c_t = init_cell, logits_hd = [], logits_pc = [],
             bottleneck_acts = [], rnn_states = [], cell_states = []\<rparr> of
       Inl e \<Rightarrow> Inl e
     | Inr s \<Rightarrow>
    (case stack (logits_hd s) of
       Inl e \<Rightarrow> Inl e
     | Inr o1 \<Rightarrow>
    (case stack (logits_pc s) of
       Inl e \<Rightarrow> Inl e
     | Inr o2 \<Rightarrow>
    (case stack (bottleneck_acts s) of
       Inl e \<Rightarrow> Inl e
     | Inr o3 \<Rightarrow>
    (case stack (rnn_states s) of
       Inl e \<Rightarrow> Inl e
     | Inr o4 \<Rightarrow>
    (case stack (cell_states s) of
       Inl e \<Rightarrow> Inl e
     | Inr o5 \<Rightarrow> Inr (o1, o2, o3, o4, o5)))))))))))"

section \<open>Concrete inputs\<close>

text \<open>Sources of randomness whose draws are all the same: every normal draw is \<open>n\<close>,
  every uniform draw \<open>u\<close>.\<close>

definition const_rng :: "real \<Rightarrow> real \<Rightarrow> rng" where
  "const_rng n u = \<lparr>normal_draws = (\<lambda>name i. n), uniform_draws = (\<lambda>name i. u)\<rparr>"

text \<open>A file system without files.\<close>

definition no_files :: "string \<rightharpoonup> tensor" where
  "no_files = (\<lambda>path. None)"

text \<open>A small model with known weights: recurrent width 2, bottleneck width 2 (with a
  bias), one place cell and one head-direction cell, initial conditions of total width 2.\<close>

definition example_model :: GridTorch where
  "example_model =
    \<lparr>target_ensembles = [\<lparr>n_cells = 1\<rparr>, \<lparr>n_cells = 1\<rparr>],
     state_embed = \<lparr>weight = \<lparr>shape = [2, 2], vals = [0, 0, 0, 0]\<rparr>,
                    bias = Some \<lparr>shape = [2], vals = [0, 0]\<rparr>\<rparr>,
     cell_embed = \<lparr>weight = \<lparr>shape = [2, 2], vals = [0, 0, 0, 0]\<rparr>,
                   bias = Some \<lparr>shape = [2], vals = [0, 0]\<rparr>\<rparr>,
     lstm = \<lparr>input_size = 3, hidden_size = 2,
             weight_ih_l0 = \<lparr>shape = [8, 3], vals = replicate 24 0\<rparr>,
             weight_hh_l0 = \<lparr>shape = [8, 2], vals = replicate 16 0\<rparr>,
             bias_ih_l0 = \<lparr>shape = [8], vals = replicate 8 0\<rparr>,
             bias_hh_l0 = \<lparr>shape = [8], vals = replicate 8 0\<rparr>,
             lstm_weight = None, lstm_bias = None\<rparr>,
     bottleneck = \<lparr>weight = \<lparr>shape = [2, 2], vals = [3, 4, 0, 0]\<rparr>,
                   bias = Some \<lparr>shape = [2], vals = [1, 1]\<rparr>\<rparr>,
     pc_logits = \<lparr>weight = \<lparr>shape = [1, 2], vals = [5, 12]\<rparr>,
                  bias = Some \<lparr>shape = [1], vals = [0]\<rparr>\<rparr>,
     hd_logits = \<lparr>weight = \<lparr>shape = [1, 2], vals = [1, 0]\<rparr>,
                  bias = Some \<lparr>shape = [1], vals = [0]\<rparr>\<rparr>,
     dropout = 1 / 2,
     training = True\<rparr>"

text \<open>A file system in which every path holds the same one-by-one array \<open>[[7]]\<close>.\<close>

definition all_files :: "string \<rightharpoonup> tensor" where
  "all_files = (\<lambda>path. Some \<lparr>shape = [1, 1], vals = [7]\<rparr>)"

text \<open>The outcome of a loading call on a model: the exception raised, if any, and the
  model it leaves. \<open>loaded_parameters\<close> are the attributes that a loading call assigns.\<close>

definition load_outcome :: "(string \<rightharpoonup> tensor) \<Rightarrow> string \<Rightarrow> GridTorch \<Rightarrow> error option \<times> GridTorch" where
  "load_outcome fs loc m =
    (let r = init_weights_from_file fs loc (m, []) in (fst r, fst (snd r)))"

definition loaded_parameters ::
  "GridTorch \<Rightarrow> Linear \<times> Linear \<times> tensor \<times> Linear \<times> Linear \<times> tensor option \<times> tensor option" where
  "loaded_parameters m =
    (pc_logits m, hd_logits m, weight (bottleneck m), state_embed m, cell_embed m,
     lstm_weight (lstm m), lstm_bias (lstm m))"

text \<open>Dropout masks that keep every element, and masks that drop every element.\<close>

definition keep_all :: "nat \<Rightarrow> nat \<Rightarrow> bool" where
  "keep_all k j = True"

definition drop_all :: "nat \<Rightarrow> nat \<Rightarrow> bool" where
  "drop_all k j = False"

text \<open>A tensor of the given shape filled with zeros, as an input.\<close>

definition zeros :: "nat list \<Rightarrow> tensor" where
  "zeros s = \<lparr>shape = s, vals = replicate (numel s) 0\<rparr>"

text \<open>The parameter shapes of a model with embedding input width \<open>E\<close>, recurrent width
  \<open>H\<close>, bottleneck width \<open>NB\<close> and output widths \<open>n_pc\<close> and \<open>n_hd\<close>, as construction
  without pretrained weights leaves them (the flag of the recurrent cell included).\<close>

definition linear_shaped :: "Linear \<Rightarrow> nat \<Rightarrow> nat \<Rightarrow> bool" where
  "linear_shaped l i o' =
    (shape (weight l) = [o', i] \<and> (case bias l of None \<Rightarrow> True | Some b \<Rightarrow> shape b = [o']))"

definition shaped :: "GridTorch \<Rightarrow> nat \<Rightarrow> nat \<Rightarrow> nat \<Rightarrow> nat \<Rightarrow> nat \<Rightarrow> bool" where
  "shaped m E H NB n_pc n_hd =
    (linear_shaped (state_embed m) E H \<and> linear_shaped (cell_embed m) E H
     \<and> input_size (lstm m) = 3 \<and> hidden_size (lstm m) = H \<and> lstm_bias (lstm m) = None
     \<and> shape (weight_ih_l0 (lstm m)) = [4 * H, 3] \<and> shape (weight_hh_l0 (lstm m)) = [4 * H, H]
     \<and> shape (bias_ih_l0 (lstm m)) = [4 * H] \<and> shape (bias_hh_l0 (lstm m)) = [4 * H]
     \<and> linear_shaped (bottleneck m) H NB
     \<and> linear_shaped (pc_logits m) NB n_pc \<and> linear_shaped (hd_logits m) NB n_hd)"

text \<open>The loop invariant for batch size \<open>B\<close>: the state tensors have shape \<open>[B, H]\<close>, and
  after \<open>k\<close> iterations every list holds \<open>k\<close> tensors of its per-step shape.\<close>

definition loop_inv :: "nat \<Rightarrow> nat \<Rightarrow> nat \<Rightarrow> nat \<Rightarrow> nat \<Rightarrow> nat \<Rightarrow> loop_state \<Rightarrow> bool" where
  "loop_inv B H NB n_pc n_hd k s =
    (shape (h_t s) = [B, H] \<and> shape (c_t s) = [B, H]
     \<and> length (logits_hd s) = k \<and> list_all (\<lambda>t. shape t = [B, n_hd]) (logits_hd s)
     \<and> length (logits_pc s) = k \<and> list_all (\<lambda>t. shape t = [B, n_pc]) (logits_pc s)
     \<and> length (bottleneck_acts s) = k \<and> list_all (\<lambda>t. shape t = [B, NB]) (bottleneck_acts s)
     \<and> length (rnn_states s) = k \<and> list_all (\<lambda>t. shape t = [B, H]) (rnn_states s)
     \<and> length (cell_states s) = k \<and> list_all (\<lambda>t. shape t = [B, H]) (cell_states s))"

section \<open>Properties of the truncated-normal routine\<close>

lemma foldr_max_bool: "foldr max bs False = (True \<in> set bs)"
  by (induction bs) auto

lemma first_index_filter:
  "\<exists>x \<in> set xs. P x \<Longrightarrow> xs ! first_index P xs = hd (filter P xs)"
  by (induction xs) auto

lemma first_index_map: "first_index P (map f xs) = first_index (\<lambda>x. P (f x)) xs"
  by (induction xs) auto

lemma pick_row:
  assumes "ds \<noteq> []"
  shows "ds ! snd (max_last (map (\<lambda>v. v < 2 \<and> v > -2) ds)) = kept ds"
proof (cases "\<exists>d \<in> set ds. in_range d")
  case True
  then have m: "foldr max (map (\<lambda>v. v < 2 \<and> v > -2) ds) False = True"
    by (auto simp: foldr_max_bool in_range_def)
  have "ds ! first_index in_range ds = hd (filter in_range ds)"
    using True by (rule first_index_filter)
  moreover have "filter in_range ds \<noteq> []"
    using True by (simp add: filter_empty_conv)
  ultimately show ?thesis
    using m by (cases "filter in_range ds")
      (simp_all add: max_last_def kept_def first_index_map in_range_def[abs_def])
next
  case False
  then have m: "foldr max (map (\<lambda>v. v < 2 \<and> v > -2) ds) False = False"
    by (auto simp: foldr_max_bool in_range_def)
  from False have e: "filter in_range ds = []"
    by (simp add: filter_empty_conv)
  obtain d ds' where ds: "ds = d # ds'"
    using assms by (cases ds) auto
  with False have "\<not> (d < 2 \<and> d > -2)"
    by (simp add: in_range_def)
  then show ?thesis
    using m e ds by (simp add: max_last_def kept_def)
qed

lemma rows_of_stream:
  assumes "i < k"
  shows "rows_of k 4 (map g [0..<k * 4]) ! i = candidates g i"
proof -
  have "i * 4 + 4 \<le> k * 4"
    using assms by simp
  then have "take 4 (drop (i * 4) (map g [0..<k * 4])) = map g [i * 4..<i * 4 + 4]"
    by (simp add: take_map drop_map take_upt)
  then show ?thesis
    using assms by (simp add: rows_of_def candidates_def mult.commute)
qed

lemma truncated_vals:
  "vals (truncated_normal_inplace g t mean std) =
     map (\<lambda>i. kept (candidates g i) * std + mean) [0..<numel (shape t)]"
proof -
  let ?k = "numel (shape t)"
  let ?tmp = "rows_of ?k 4 (map g [0..<?k * 4])"
  have len: "length ?tmp = ?k"
    by (simp add: rows_of_def)
  have row: "?tmp ! i = candidates g i" if "i < ?k" for i
    using that by (rule rows_of_stream)
  have "map2 (\<lambda>r i. r ! i) ?tmp (map (\<lambda>bs. snd (max_last bs)) (map (map (\<lambda>v. v < 2 \<and> v > -2)) ?tmp))
        = map (\<lambda>i. kept (candidates g i)) [0..<?k]"
  proof (rule nth_equalityI)
    show "length (map2 (\<lambda>r i. r ! i) ?tmp (map (\<lambda>bs. snd (max_last bs)) (map (map (\<lambda>v. v < 2 \<and> v > -2)) ?tmp)))
          = length (map (\<lambda>i. kept (candidates g i)) [0..<?k])"
      by (simp add: len)
  next
    fix i
    assume "i < length (map2 (\<lambda>r i. r ! i) ?tmp (map (\<lambda>bs. snd (max_last bs)) (map (map (\<lambda>v. v < 2 \<and> v > -2)) ?tmp)))"
    then have i: "i < ?k"
      by (simp add: len)
    have ne: "candidates g i \<noteq> []"
      by (simp add: candidates_def)
    show "map2 (\<lambda>r i. r ! i) ?tmp (map (\<lambda>bs. snd (max_last bs)) (map (map (\<lambda>v. v < 2 \<and> v > -2)) ?tmp)) ! i
          = map (\<lambda>i. kept (candidates g i)) [0..<?k] ! i"
      using i len row[OF i] pick_row[OF ne] by simp
  qed
  then have picked: "map (\<lambda>v. v * std + mean)
        (map2 (\<lambda>r i. r ! i) ?tmp (map (\<lambda>bs. snd (max_last bs)) (map (map (\<lambda>v. v < 2 \<and> v > -2)) ?tmp)))
        = map (\<lambda>i. kept (candidates g i) * std + mean) [0..<?k]"
    by (simp only: map_map comp_def)
  have "numel (shape t @ [4]) = ?k * 4"
    by (simp add: numel_def)
  then have "vals (truncated_normal_inplace g t mean std) = map (\<lambda>v. v * std + mean)
        (map2 (\<lambda>r i. r ! i) ?tmp (map (\<lambda>bs. snd (max_last bs)) (map (map (\<lambda>v. v < 2 \<and> v > -2)) ?tmp)))"
    by (simp add: truncated_normal_inplace_def normal_inplace_def Let_def)
  with picked show ?thesis
    by (simp only:)
qed

lemma kept_char:
  "kept ds = (if list_ex in_range ds then hd (filter in_range ds) else ds ! 0)"
  by (cases "filter in_range ds")
    (auto simp: kept_def list_ex_iff filter_empty_conv dest: filter_eq_ConsD)

lemma candidates_four:
  "candidates g i = [g (4 * i), g (4 * i + 1), g (4 * i + 2), g (4 * i + 3)]"
  by (simp add: candidates_def upt_rec[of "4 * i"] upt_rec[of "Suc (4 * i)"]
      upt_rec[of "Suc (Suc (4 * i))"] upt_rec[of "Suc (Suc (Suc (4 * i)))"] numeral_eq_Suc)

lemma kept_in_range: "list_ex in_range ds \<Longrightarrow> in_range (kept ds)"
proof -
  assume "list_ex in_range ds"
  then have ne: "filter in_range ds \<noteq> []"
    by (simp add: list_ex_iff filter_empty_conv)
  then have "hd (filter in_range ds) \<in> set (filter in_range ds)"
    by (rule hd_in_set)
  then have "in_range (hd (filter in_range ds))"
    by simp
  with \<open>list_ex in_range ds\<close> show ?thesis
    by (simp add: kept_char)
qed

text \<open>
  Claim C3, as the code has it. Every element of the target tensor has four candidate
  draws; the routine keeps the first candidate strictly inside \<open>(-2, 2)\<close>, and when no
  candidate is in range it keeps the first candidate (index 0), whatever its distance
  from the range. The kept value is multiplied by the standard deviation and the mean is
  added; \<open>init_trunc_normal\<close> passes mean \<open>0\<close> and standard deviation \<open>1 / sqrt size\<close>.
\<close>

theorem truncated_normal_keeps_first_in_range:
  assumes "i < numel (shape t)"
  shows "vals (truncated_normal_inplace g t mean std) ! i = kept (candidates g i) * std + mean
    \<and> vals (init_trunc_normal g t sz) ! i = kept (candidates g i) * (1 / sqrt (real sz))
    \<and> candidates g i = [g (4 * i), g (4 * i + 1), g (4 * i + 2), g (4 * i + 3)]
    \<and> kept (candidates g i) =
        (if list_ex in_range (candidates g i) then hd (filter in_range (candidates g i))
         else g (4 * i))"
  using assms by (simp add: truncated_vals init_trunc_normal_def kept_char candidates_four)

theorem truncated_normal_keeps_first_in_range_witness:
  "1 < numel (shape \<lparr>shape = [2], vals = [0, 0]\<rparr>)
   \<and> vals (init_trunc_normal (stream_of [3, 5 / 2, - 5, 4, 7, 1 / 2, 1, 9]) \<lparr>shape = [2], vals = [0, 0]\<rparr> 4) ! 1
       = 1 / 2 * (1 / sqrt 4)"
proof -
  let ?g = "stream_of [3, 5 / 2, - 5, 4, 7, 1 / 2, 1, 9 :: real]"
  let ?t = "\<lparr>shape = [2], vals = [0, 0]\<rparr>"
  have h: "1 < numel (shape ?t)"
    by (simp add: numel_def)
  have c: "candidates ?g (Suc 0) = [7, 1 / 2, 1, 9]"
    by (simp add: candidates_four stream_of_def)
  have "vals (init_trunc_normal ?g ?t 4) ! 1 = kept (candidates ?g 1) * (1 / sqrt (real 4))"
    using truncated_normal_keeps_first_in_range [OF h, of ?g 0 1 4] by (rule conjunct1[OF conjunct2])
  then show ?thesis
    using h by (simp add: c kept_def in_range_def)
qed

text \<open>
  The claim's fallback fails: with the four draws \<open>3, 5/2, -5, 4\<close>, none in range, the
  routine keeps \<open>3\<close>, the first, and not \<open>5/2\<close>, the nearest to the range.
\<close>

lemma candidates_example:
  "candidates (stream_of [3, 5 / 2, - 5, 4]) 0 = [3, 5 / 2, - 5, 4 :: real]"
  by (simp add: candidates_four stream_of_def)

theorem truncated_normal_fallback_is_first_draw:
  "vals (init_trunc_normal (stream_of [3, 5 / 2, - 5, 4]) \<lparr>shape = [1], vals = [0]\<rparr> 1) = [3]
   \<and> spec_kept [3, 5 / 2, - 5, 4] = 5 / 2
   \<and> vals (init_trunc_normal (stream_of [3, 5 / 2, - 5, 4]) \<lparr>shape = [1], vals = [0]\<rparr> 1)
       \<noteq> [spec_kept [3, 5 / 2, - 5, 4] * (1 / sqrt 1) + 0]"
  by (simp add: init_trunc_normal_def truncated_vals numel_def candidates_example kept_def
      spec_kept_def in_range_def Let_def)

section \<open>Properties of construction\<close>

lemma shape_init [simp]:
  "shape (truncated_normal_inplace g t mean std) = shape t"
  "shape (init_trunc_normal g t sz) = shape t"
  "shape (uniform_inplace u t a b) = shape t"
  "shape (zeros_inplace t) = shape t"
  "shape (kaiming_uniform_inplace u t) = shape t"
  "shape (empty_tensor s) = s"
  by (simp_all add: truncated_normal_inplace_def init_trunc_normal_def uniform_inplace_def
      zeros_inplace_def kaiming_uniform_inplace_def empty_tensor_def Let_def)

lemma nn_Linear_shapes [simp]:
  "shape (weight (nn_Linear r name i o' hb)) = [o', i]"
  "bias (nn_Linear r name i o' False) = None"
  "map_option shape (bias (nn_Linear r name i o' hb)) = (if hb then Some [o'] else None)"
  by (simp_all add: nn_Linear_def Let_def)

lemma nn_Linear_bias_zeroed:
  "map_option zeros_inplace (bias (nn_Linear r name i o' True))
     = Some \<lparr>shape = [o'], vals = replicate o' 0\<rparr>"
  by (simp add: nn_Linear_def Let_def zeros_inplace_def uniform_inplace_def empty_tensor_def numel_def)

lemma init_trunc_normal_vals:
  "vals (init_trunc_normal g t sz)
     = map (\<lambda>i. kept (candidates g i) * (1 / sqrt (real sz))) [0..<numel (shape t)]"
  by (simp add: init_trunc_normal_def truncated_vals)

lemma wf_sampled:
  "wf_tensor (truncated_normal_inplace g t mean std)"
  "wf_tensor (init_trunc_normal g t sz)"
  "wf_tensor (uniform_inplace u t a b)"
  "wf_tensor (zeros_inplace t)"
  "wf_tensor (empty_tensor s)"
  "wf_tensor (zeros s)"
  by (simp_all add: wf_tensor_def truncated_vals init_trunc_normal_vals uniform_inplace_def
      zeros_inplace_def empty_tensor_def zeros_def)

text \<open>A recurrent width of zero is refused first, whatever the other arguments.\<close>

lemma init_zero_width:
  "GridTorch_init r fs tes 0 NB NP ND p hb wl = Inl ValueError"
  by (simp add: GridTorch_init_def nn_LSTM_def Let_def)

lemma init_fails_short:
  "length tes < 2 \<Longrightarrow> 0 < H \<Longrightarrow> GridTorch_init r fs tes H NB NP ND p hb wl = Inl IndexError"
  by (cases tes) (auto simp: GridTorch_init_def nn_LSTM_def py_index_def Let_def)

lemma init_Inr_width:
  "GridTorch_init r fs tes H NB NP ND p hb wl = Inr m \<Longrightarrow> 0 < H"
  using init_zero_width[of r fs tes NB NP ND p hb wl] by (cases "H = 0") auto

lemma init_Inr_length:
  "GridTorch_init r fs tes H NB NP ND p hb wl = Inr m \<Longrightarrow> 2 \<le> length tes"
  using init_fails_short[of tes H r fs NB NP ND p hb wl] init_Inr_width[of r fs tes H NB NP ND p hb wl m]
  by (cases "length tes < 2") auto

lemma init_None_ok:
  "2 \<le> length tes \<Longrightarrow> 0 \<le> p \<Longrightarrow> p \<le> 1 \<Longrightarrow> 0 < H
    \<Longrightarrow> \<exists>m. GridTorch_init r fs tes H NB NP ND p hb None = Inr m"
  by (auto simp: GridTorch_init_def nn_LSTM_def py_index_def Let_def nn_Dropout_def)

lemma init_None_fields:
  assumes "GridTorch_init r fs tes H NB NP ND p hb None = Inr m"
  shows "weight (state_embed m) = init_trunc_normal (normal_draws r ''state_embed.weight'')
            (weight (nn_Linear r ''state_embed'' (NP + ND) H True)) 128"
    and "weight (cell_embed m) = init_trunc_normal (normal_draws r ''cell_embed.weight'')
            (weight (nn_Linear r ''cell_embed'' (NP + ND) H True)) 128"
    and "weight (bottleneck m) = init_trunc_normal (normal_draws r ''bottleneck.weight'')
            (weight (nn_Linear r ''bottleneck'' H NB hb)) 256"
    and "weight (pc_logits m) = init_trunc_normal (normal_draws r ''pc_logits.weight'')
            (weight (nn_Linear r ''pc_logits'' NB (n_cells (tes ! 0)) True)) 256"
    and "weight (hd_logits m) = init_trunc_normal (normal_draws r ''hd_logits.weight'')
            (weight (nn_Linear r ''hd_logits'' NB (n_cells (tes ! 1)) True)) 12"
    and "bias (state_embed m) = map_option zeros_inplace (bias (nn_Linear r ''state_embed'' (NP + ND) H True))"
    and "bias (cell_embed m) = map_option zeros_inplace (bias (nn_Linear r ''cell_embed'' (NP + ND) H True))"
    and "bias (bottleneck m) = bias (nn_Linear r ''bottleneck'' H NB hb)"
    and "bias (pc_logits m) = map_option zeros_inplace (bias (nn_Linear r ''pc_logits'' NB (n_cells (tes ! 0)) True))"
    and "bias (hd_logits m) = map_option zeros_inplace (bias (nn_Linear r ''hd_logits'' NB (n_cells (tes ! 1)) True))"
    and "dropout m = p" and "training m = True" and "target_ensembles m = tes"
    and "lstm m = (lstm_parameters r ''lstm'' 3 H)
           \<lparr>weight_ih_l0 := kaiming_uniform_inplace (uniform_draws r ''kaiming.weight_ih_l0'') (weight_ih_l0 (lstm_parameters r ''lstm'' 3 H)),
            weight_hh_l0 := kaiming_uniform_inplace (uniform_draws r ''kaiming.weight_hh_l0'') (weight_hh_l0 (lstm_parameters r ''lstm'' 3 H)),
            bias_hh_l0 := zeros_inplace (bias_hh_l0 (lstm_parameters r ''lstm'' 3 H)),
            bias_ih_l0 := zeros_inplace (bias_ih_l0 (lstm_parameters r ''lstm'' 3 H))\<rparr>"
  using assms
  by (auto simp: GridTorch_init_def nn_LSTM_def py_index_def Let_def nn_Dropout_def split: if_splits)

lemma init_None_weights:
  assumes "GridTorch_init r fs tes H NB NP ND p hb None = Inr m"
  shows "shape (weight (state_embed m)) = [H, NP + ND]"
    and "vals (weight (state_embed m)) =
          map (\<lambda>i. kept (candidates (normal_draws r ''state_embed.weight'') i) * (1 / sqrt 128)) [0..<H * (NP + ND)]"
    and "shape (weight (cell_embed m)) = [H, NP + ND]"
    and "vals (weight (cell_embed m)) =
          map (\<lambda>i. kept (candidates (normal_draws r ''cell_embed.weight'') i) * (1 / sqrt 128)) [0..<H * (NP + ND)]"
    and "shape (weight (bottleneck m)) = [NB, H]"
    and "vals (weight (bottleneck m)) =
          map (\<lambda>i. kept (candidates (normal_draws r ''bottleneck.weight'') i) * (1 / sqrt 256)) [0..<NB * H]"
    and "shape (weight (pc_logits m)) = [n_cells (tes ! 0), NB]"
    and "vals (weight (pc_logits m)) =
          map (\<lambda>i. kept (candidates (normal_draws r ''pc_logits.weight'') i) * (1 / sqrt 256)) [0..<n_cells (tes ! 0) * NB]"
    and "shape (weight (hd_logits m)) = [n_cells (tes ! 1), NB]"
    and "vals (weight (hd_logits m)) =
          map (\<lambda>i. kept (candidates (normal_draws r ''hd_logits.weight'') i) * (1 / sqrt 12)) [0..<n_cells (tes ! 1) * NB]"
  by (simp_all add: init_None_fields[OF assms] init_trunc_normal_vals numel_def)

lemma init_None_biases:
  assumes "GridTorch_init r fs tes H NB NP ND p hb None = Inr m"
  shows "bias (state_embed m) = Some \<lparr>shape = [H], vals = replicate H 0\<rparr>"
    and "bias (cell_embed m) = Some \<lparr>shape = [H], vals = replicate H 0\<rparr>"
    and "bias (pc_logits m) = Some \<lparr>shape = [n_cells (tes ! 0)], vals = replicate (n_cells (tes ! 0)) 0\<rparr>"
    and "bias (hd_logits m) = Some \<lparr>shape = [n_cells (tes ! 1)], vals = replicate (n_cells (tes ! 1)) 0\<rparr>"
    and "bias_ih_l0 (lstm m) = \<lparr>shape = [4 * H], vals = replicate (4 * H) 0\<rparr>"
    and "bias_hh_l0 (lstm m) = \<lparr>shape = [4 * H], vals = replicate (4 * H) 0\<rparr>"
  by (simp_all add: init_None_fields[OF assms] nn_Linear_bias_zeroed lstm_parameters_def Let_def
      zeros_inplace_def uniform_inplace_def empty_tensor_def numel_def)

lemma kept_scaled_bound:
  assumes "list_ex in_range ds" and "0 < s"
  shows "\<bar>kept ds * (1 / sqrt s)\<bar> < 2 / sqrt s"
proof -
  have "in_range (kept ds)"
    using assms(1) by (rule kept_in_range)
  then have "\<bar>kept ds\<bar> < 2"
    by (auto simp: in_range_def)
  moreover have "0 < sqrt s"
    using assms(2) by simp
  ultimately have "\<bar>kept ds\<bar> / sqrt s < 2 / sqrt s"
    by (simp add: divide_strict_right_mono)
  then show ?thesis
    using \<open>0 < sqrt s\<close> by (simp add: abs_mult)
qed

lemma kept_const [simp]: "kept (candidates (\<lambda>i. n) k) = n"
  by (simp add: candidates_four kept_def)

text \<open>
  Claim C4, as the code has it. Construction succeeds for at least two target ensembles,
  a dropout rate in \<open>[0, 1]\<close> and a positive recurrent width (the configurations that the
  library's modules accept), and the five weight tensors are then filled by the
  truncated-normal routine with the fixed sizes 128, 128, 256, 256 and 12, whatever the
  widths of the layers: a tensor of shape \<open>[out, in]\<close> gets the standard deviation
  \<open>1 / sqrt 128\<close> (and so on), not \<open>1 / sqrt in\<close>.
\<close>

theorem init_trunc_normal_sizes_are_constants:
  assumes "2 \<le> length tes" and "0 \<le> p" and "p \<le> 1" and "0 < H"
  shows "\<exists>m. GridTorch_init r fs tes H NB NP ND p hb None = Inr m
    \<and> shape (weight (state_embed m)) = [H, NP + ND]
    \<and> vals (weight (state_embed m)) =
        map (\<lambda>i. kept (candidates (normal_draws r ''state_embed.weight'') i) * (1 / sqrt 128)) [0..<H * (NP + ND)]
    \<and> shape (weight (cell_embed m)) = [H, NP + ND]
    \<and> vals (weight (cell_embed m)) =
        map (\<lambda>i. kept (candidates (normal_draws r ''cell_embed.weight'') i) * (1 / sqrt 128)) [0..<H * (NP + ND)]
    \<and> shape (weight (bottleneck m)) = [NB, H]
    \<and> vals (weight (bottleneck m)) =
        map (\<lambda>i. kept (candidates (normal_draws r ''bottleneck.weight'') i) * (1 / sqrt 256)) [0..<NB * H]
    \<and> shape (weight (pc_logits m)) = [n_cells (tes ! 0), NB]
    \<and> vals (weight (pc_logits m)) =
        map (\<lambda>i. kept (candidates (normal_draws r ''pc_logits.weight'') i) * (1 / sqrt 256)) [0..<n_cells (tes ! 0) * NB]
    \<and> shape (weight (hd_logits m)) = [n_cells (tes ! 1), NB]
    \<and> vals (weight (hd_logits m)) =
        map (\<lambda>i. kept (candidates (normal_draws r ''hd_logits.weight'') i) * (1 / sqrt 12)) [0..<n_cells (tes ! 1) * NB]"
proof -
  obtain m where m: "GridTorch_init r fs tes H NB NP ND p hb None = Inr m"
    using init_None_ok[OF assms] by blast
  show ?thesis
    using m init_None_weights[OF m] by blast
qed

theorem init_trunc_normal_sizes_are_constants_witness:
  "2 \<le> length [\<lparr>n_cells = 1\<rparr>, \<lparr>n_cells = 1\<rparr>] \<and> (0::real) \<le> 1 / 2 \<and> (1 / 2 :: real) \<le> 1
   \<and> (0::nat) < 2
   \<and> (\<exists>m. GridTorch_init (const_rng 1 0) no_files [\<lparr>n_cells = 1\<rparr>, \<lparr>n_cells = 1\<rparr>] 2 2 1 1 (1 / 2) False None = Inr m
        \<and> shape (weight (state_embed m)) = [2, 2]
        \<and> vals (weight (state_embed m)) = [1 / sqrt 128, 1 / sqrt 128, 1 / sqrt 128, 1 / sqrt 128]
        \<and> shape (weight (hd_logits m)) = [1, 2]
        \<and> vals (weight (hd_logits m)) = [1 / sqrt 12, 1 / sqrt 12])"
proof -
  have h: "2 \<le> length [\<lparr>n_cells = 1\<rparr>, \<lparr>n_cells = 1\<rparr>]" "(0::real) \<le> 1 / 2" "(1 / 2 :: real) \<le> 1"
    "(0::nat) < 2"
    by simp_all
  obtain m where m: "GridTorch_init (const_rng 1 0) no_files [\<lparr>n_cells = 1\<rparr>, \<lparr>n_cells = 1\<rparr>] 2 2 1 1 (1 / 2) False None = Inr m"
    and s: "shape (weight (state_embed m)) = [2, 1 + 1]"
      "vals (weight (state_embed m)) =
        map (\<lambda>i. kept (candidates (normal_draws (const_rng 1 0) ''state_embed.weight'') i) * (1 / sqrt 128)) [0..<2 * (1 + 1)]"
      "shape (weight (hd_logits m)) = [n_cells ([\<lparr>n_cells = 1\<rparr>, \<lparr>n_cells = 1\<rparr>] ! 1), 2]"
      "vals (weight (hd_logits m)) =
        map (\<lambda>i. kept (candidates (normal_draws (const_rng 1 0) ''hd_logits.weight'') i) * (1 / sqrt 12)) [0..<n_cells ([\<lparr>n_cells = 1\<rparr>, \<lparr>n_cells = 1\<rparr>] ! 1) * 2]"
    using init_trunc_normal_sizes_are_constants [OF h, of "const_rng 1 0" no_files 2 1 1 False]
    by blast
  have u: "[0..<4] = [0, 1, 2, 3::nat]" "[0..<2] = [0, 1::nat]"
    by (simp_all add: upt_rec)
  show ?thesis
    using m s by (simp add: const_rng_def u)
qed

text \<open>
  The claim fails at the default configuration: the state-embedding layer has input width
  \<open>256 + 12 = 268\<close> and the head-direction layer input width 256, and with every draw
  equal to 1 their weights are \<open>1 / sqrt 128\<close> and \<open>1 / sqrt 12\<close>: the sizes used are 128
  and 12, not the input widths.
\<close>

theorem default_sizes_are_not_input_widths:
  "(case GridTorch_default (const_rng 1 0) no_files [\<lparr>n_cells = 256\<rparr>, \<lparr>n_cells = 12\<rparr>] of
      Inl e \<Rightarrow> False
    | Inr m \<Rightarrow>
        shape (weight (state_embed m)) = [128, 268]
        \<and> vals (weight (state_embed m)) ! 0 = 1 / sqrt 128
        \<and> vals (weight (state_embed m)) ! 0 \<noteq> 1 / sqrt 268
        \<and> shape (weight (hd_logits m)) = [12, 256]
        \<and> vals (weight (hd_logits m)) ! 0 = 1 / sqrt 12
        \<and> vals (weight (hd_logits m)) ! 0 \<noteq> 1 / sqrt 256)"
proof -
  obtain m where m: "GridTorch_init (const_rng 1 0) no_files [\<lparr>n_cells = 256\<rparr>, \<lparr>n_cells = 12\<rparr>]
      128 256 256 12 (1 / 2) False None = Inr m"
    using init_None_ok[of "[\<lparr>n_cells = 256\<rparr>, \<lparr>n_cells = 12\<rparr>]" "1 / 2"] by force
  have "vals (weight (state_embed m)) ! 0 = 1 / sqrt 128"
    by (simp add: init_None_weights[OF m] const_rng_def del: upt_Suc)
  moreover have "vals (weight (hd_logits m)) ! 0 = 1 / sqrt 12"
    by (simp add: init_None_weights[OF m] const_rng_def del: upt_Suc)
  moreover have "sqrt 12 \<noteq> 16"
  proof
    assume a: "sqrt 12 = 16"
    have "(sqrt 12)\<^sup>2 = 12"
      by simp
    with a show False
      by simp
  qed
  ultimately show ?thesis
    using init_None_weights(1,9)[OF m] by (simp add: GridTorch_default_def m)
qed

text \<open>
  Claim C5, as the code has it. A model constructed without a weights location has zero
  biases in the two embedding layers, the two output layers and the recurrent cell, and
  every element of the five truncated-normal weight tensors lies strictly within
  \<open>2 / sqrt size\<close> of zero (size 128, 128, 256, 256, 12) provided one of its four
  candidate draws lies in \<open>(-2, 2)\<close>. (An element whose four draws all miss the range
  is the first draw scaled, and lies outside.)
\<close>

theorem fresh_model_biases_zero_weights_bounded:
  assumes "2 \<le> length tes" and "0 \<le> p" and "p \<le> 1" and "0 < H"
  shows "\<exists>m. GridTorch_init r fs tes H NB NP ND p hb None = Inr m
    \<and> bias (state_embed m) = Some \<lparr>shape = [H], vals = replicate H 0\<rparr>
    \<and> bias (cell_embed m) = Some \<lparr>shape = [H], vals = replicate H 0\<rparr>
    \<and> bias (pc_logits m) = Some \<lparr>shape = [n_cells (tes ! 0)], vals = replicate (n_cells (tes ! 0)) 0\<rparr>
    \<and> bias (hd_logits m) = Some \<lparr>shape = [n_cells (tes ! 1)], vals = replicate (n_cells (tes ! 1)) 0\<rparr>
    \<and> bias_ih_l0 (lstm m) = \<lparr>shape = [4 * H], vals = replicate (4 * H) 0\<rparr>
    \<and> bias_hh_l0 (lstm m) = \<lparr>shape = [4 * H], vals = replicate (4 * H) 0\<rparr>
    \<and> (\<forall>i < H * (NP + ND). list_ex in_range (candidates (normal_draws r ''state_embed.weight'') i)
          \<longrightarrow> \<bar>vals (weight (state_embed m)) ! i\<bar> < 2 / sqrt 128)
    \<and> (\<forall>i < H * (NP + ND). list_ex in_range (candidates (normal_draws r ''cell_embed.weight'') i)
          \<longrightarrow> \<bar>vals (weight (cell_embed m)) ! i\<bar> < 2 / sqrt 128)
    \<and> (\<forall>i < NB * H. list_ex in_range (candidates (normal_draws r ''bottleneck.weight'') i)
          \<longrightarrow> \<bar>vals (weight (bottleneck m)) ! i\<bar> < 2 / sqrt 256)
    \<and> (\<forall>i < n_cells (tes ! 0) * NB. list_ex in_range (candidates (normal_draws r ''pc_logits.weight'') i)
          \<longrightarrow> \<bar>vals (weight (pc_logits m)) ! i\<bar> < 2 / sqrt 256)
    \<and> (\<forall>i < n_cells (tes ! 1) * NB. list_ex in_range (candidates (normal_draws r ''hd_logits.weight'') i)
          \<longrightarrow> \<bar>vals (weight (hd_logits m)) ! i\<bar> < 2 / sqrt 12)"
proof -
  obtain m where m: "GridTorch_init r fs tes H NB NP ND p hb None = Inr m"
    using init_None_ok[OF assms] by blast
  note w = init_None_weights[OF m]
  have b1: "\<forall>i < H * (NP + ND). list_ex in_range (candidates (normal_draws r ''state_embed.weight'') i)
          \<longrightarrow> \<bar>vals (weight (state_embed m)) ! i\<bar> < 2 / sqrt 128"
    using kept_scaled_bound[of _ 128] by (simp add: w(2) del: upt_Suc)
  have b2: "\<forall>i < H * (NP + ND). list_ex in_range (candidates (normal_draws r ''cell_embed.weight'') i)
          \<longrightarrow> \<bar>vals (weight (cell_embed m)) ! i\<bar> < 2 / sqrt 128"
    using kept_scaled_bound[of _ 128] by (simp add: w(4) del: upt_Suc)
  have b3: "\<forall>i < NB * H. list_ex in_range (candidates (normal_draws r ''bottleneck.weight'') i)
          \<longrightarrow> \<bar>vals (weight (bottleneck m)) ! i\<bar> < 2 / sqrt 256"
    using kept_scaled_bound[of _ 256] by (simp add: w(6) del: upt_Suc)
  have b4: "\<forall>i < n_cells (tes ! 0) * NB. list_ex in_range (candidates (normal_draws r ''pc_logits.weight'') i)
          \<longrightarrow> \<bar>vals (weight (pc_logits m)) ! i\<bar> < 2 / sqrt 256"
    using kept_scaled_bound[of _ 256] by (simp add: w(8) del: upt_Suc)
  have b5: "\<forall>i < n_cells (tes ! 1) * NB. list_ex in_range (candidates (normal_draws r ''hd_logits.weight'') i)
          \<longrightarrow> \<bar>vals (weight (hd_logits m)) ! i\<bar> < 2 / sqrt 12"
    using kept_scaled_bound[of _ 12] by (simp add: w(10) del: upt_Suc)
  show ?thesis
    using m init_None_biases[OF m] b1 b2 b3 b4 b5 by blast
qed

theorem fresh_model_biases_zero_weights_bounded_witness:
  "2 \<le> length [\<lparr>n_cells = 1\<rparr>, \<lparr>n_cells = 1\<rparr>] \<and> (0::real) \<le> 1 / 2 \<and> (1 / 2 :: real) \<le> 1
   \<and> (0::nat) < 2
   \<and> (\<exists>m. GridTorch_init (const_rng 1 0) no_files [\<lparr>n_cells = 1\<rparr>, \<lparr>n_cells = 1\<rparr>] 2 2 1 1 (1 / 2) False None = Inr m
        \<and> bias (state_embed m) = Some \<lparr>shape = [2], vals = [0, 0]\<rparr>
        \<and> bias_ih_l0 (lstm m) = \<lparr>shape = [8], vals = replicate 8 0\<rparr>
        \<and> \<bar>vals (weight (state_embed m)) ! 3\<bar> < 2 / sqrt 128)"
proof -
  let ?tes = "[\<lparr>n_cells = 1\<rparr>, \<lparr>n_cells = 1\<rparr>]"
  have h: "2 \<le> length ?tes" "(0::real) \<le> 1 / 2" "(1 / 2 :: real) \<le> 1" "(0::nat) < 2"
    by simp_all
  obtain m where m: "GridTorch_init (const_rng 1 0) no_files ?tes 2 2 1 1 (1 / 2) False None = Inr m"
    and b: "bias (state_embed m) = Some \<lparr>shape = [2], vals = replicate 2 0\<rparr>"
      "bias_ih_l0 (lstm m) = \<lparr>shape = [4 * 2], vals = replicate (4 * 2) 0\<rparr>"
    and w: "\<forall>i < 2 * (1 + 1). list_ex in_range (candidates (normal_draws (const_rng 1 0) ''state_embed.weight'') i)
          \<longrightarrow> \<bar>vals (weight (state_embed m)) ! i\<bar> < 2 / sqrt 128"
    using fresh_model_biases_zero_weights_bounded [OF h, of "const_rng 1 0" no_files 2 1 1 False]
    by blast
  have "list_ex in_range (candidates (normal_draws (const_rng 1 0) ''state_embed.weight'') 3)"
    by (simp add: const_rng_def candidates_four in_range_def)
  with w have "\<bar>vals (weight (state_embed m)) ! 3\<bar> < 2 / sqrt 128"
    by simp
  then show ?thesis
    using m b by (simp add: numeral_2_eq_2)
qed

text \<open>
  The claim's bound fails when all four candidate draws of an element miss the range:
  with every draw equal to 3, the default model's place-cell weights are \<open>3 / sqrt 256\<close>
  (the layer's input width and the size used are both 256 there), above \<open>2 / sqrt 256\<close>.
\<close>

theorem fresh_weight_outside_truncated_range:
  "(case GridTorch_default (const_rng 3 0) no_files [\<lparr>n_cells = 256\<rparr>, \<lparr>n_cells = 12\<rparr>] of
      Inl e \<Rightarrow> False
    | Inr m \<Rightarrow>
        shape (weight (pc_logits m)) = [256, 256]
        \<and> vals (weight (pc_logits m)) ! 0 = 3 / sqrt 256
        \<and> \<not> \<bar>vals (weight (pc_logits m)) ! 0\<bar> \<le> 2 / sqrt 256)"
proof -
  obtain m where m: "GridTorch_init (const_rng 3 0) no_files [\<lparr>n_cells = 256\<rparr>, \<lparr>n_cells = 12\<rparr>]
      128 256 256 12 (1 / 2) False None = Inr m"
    using init_None_ok[of "[\<lparr>n_cells = 256\<rparr>, \<lparr>n_cells = 12\<rparr>]" "1 / 2"] by force
  have "vals (weight (pc_logits m)) ! 0 = 3 / sqrt 256"
    by (simp add: init_None_weights[OF m] const_rng_def del: upt_Suc)
  then show ?thesis
    using init_None_weights(7)[OF m] by (simp add: GridTorch_default_def m)
qed

section \<open>The regularisation term\<close>

lemma norm_p_2: "norm_p 2 t = sqrt (\<Sum>v\<leftarrow>vals t. v\<^sup>2)"
  by (simp add: norm_p_def sqrt_def)

lemma sqrt_25: "sqrt 25 = 5"
  using real_sqrt_abs[of 5] by simp

lemma sqrt_169: "sqrt 169 = 13"
  using real_sqrt_abs[of 13] by simp

text \<open>
  Claim C7. The accessor \<open>l2_loss\<close> is the sum of the Euclidean norms (the square root of
  the sum of the squares of all elements) of the weight tensors of the bottleneck,
  place-cell and head-direction layers. It reads nothing else: two models that agree on
  these three tensors have the same value. It is a function of the model and returns only
  the number, so it has no effect on the model.
\<close>

theorem l2_loss_sum_of_three_norms:
  "l2_loss m = sqrt (\<Sum>v\<leftarrow>vals (weight (bottleneck m)). v\<^sup>2)
             + sqrt (\<Sum>v\<leftarrow>vals (weight (pc_logits m)). v\<^sup>2)
             + sqrt (\<Sum>v\<leftarrow>vals (weight (hd_logits m)). v\<^sup>2)
   \<and> (weight (bottleneck m') = weight (bottleneck m)
        \<and> weight (pc_logits m') = weight (pc_logits m)
        \<and> weight (hd_logits m') = weight (hd_logits m) \<longrightarrow> l2_loss m' = l2_loss m)"
  by (simp add: l2_loss_def norm_p_2)

theorem l2_loss_sum_of_three_norms_witness:
  "l2_loss example_model = 5 + 13 + 1
   \<and> weight (bottleneck (eval_mode example_model)) = weight (bottleneck example_model)
   \<and> weight (pc_logits (eval_mode example_model)) = weight (pc_logits example_model)
   \<and> weight (hd_logits (eval_mode example_model)) = weight (hd_logits example_model)
   \<and> l2_loss (eval_mode example_model) = l2_loss example_model"
proof -
  have e: "weight (bottleneck (eval_mode example_model)) = weight (bottleneck example_model)"
    "weight (pc_logits (eval_mode example_model)) = weight (pc_logits example_model)"
    "weight (hd_logits (eval_mode example_model)) = weight (hd_logits example_model)"
    by (simp_all add: eval_mode_def)
  have "l2_loss example_model = sqrt (\<Sum>v\<leftarrow>vals (weight (bottleneck example_model)). v\<^sup>2)
             + sqrt (\<Sum>v\<leftarrow>vals (weight (pc_logits example_model)). v\<^sup>2)
             + sqrt (\<Sum>v\<leftarrow>vals (weight (hd_logits example_model)). v\<^sup>2)"
    and "l2_loss (eval_mode example_model) = l2_loss example_model"
    using l2_loss_sum_of_three_norms [of example_model "eval_mode example_model"] e by blast+
  then show ?thesis
    using e by (simp add: example_model_def sqrt_25 sqrt_169)
qed

section \<open>Properties of loading\<close>

lemma exec_assign_Cons:
  "exec (assign_loaded fs path upd # cs) (m, l) =
    (case fs path of
       None \<Rightarrow> (Some FileNotFoundError, (m, l @ [path]))
     | Some a \<Rightarrow> exec cs (upd (np_T a) m, l @ [path]))"
  by (simp add: assign_loaded_def np_load_def split: option.splits)

lemma exec_lstm_gates:
  "exec [assign_lstm_gates fs loc] (m, l) =
    (case fs (loc @ ''grid_cells_core_lstm_w_gates_0.npy'') of
       None \<Rightarrow> (Some FileNotFoundError, (m, l @ [loc @ ''grid_cells_core_lstm_w_gates_0.npy'']))
     | Some wa \<Rightarrow>
        (case fs (loc @ ''grid_cells_core_lstm_b_gates_0.npy'') of
           None \<Rightarrow> (Some FileNotFoundError,
                     (m, l @ [loc @ ''grid_cells_core_lstm_w_gates_0.npy'', loc @ ''grid_cells_core_lstm_b_gates_0.npy'']))
         | Some ba \<Rightarrow>
            (case transpose_1_0 (np_T wa) of
               Inl e \<Rightarrow> (Some e, (m, l @ [loc @ ''grid_cells_core_lstm_w_gates_0.npy'', loc @ ''grid_cells_core_lstm_b_gates_0.npy'']))
             | Inr w \<Rightarrow>
                 (None, (m\<lparr>lstm := (lstm m)\<lparr>lstm_weight := Some w, lstm_bias := Some (np_T ba)\<rparr>\<rparr>,
                         l @ [loc @ ''grid_cells_core_lstm_w_gates_0.npy'', loc @ ''grid_cells_core_lstm_b_gates_0.npy''])))))"
  by (simp add: assign_lstm_gates_def np_load_def Let_def split: option.splits sum.splits)

lemmas load_simps = init_weights_from_file_def exec_assign_Cons exec_lstm_gates

text \<open>A missing file stops the call with \<open>FileNotFoundError\<close>.\<close>

lemma load_missing:
  "list_ex (\<lambda>n. fs (loc @ n) = None) weight_files
    \<Longrightarrow> fst (init_weights_from_file fs loc (m, l)) = Some FileNotFoundError"
proof -
  assume "list_ex (\<lambda>n. fs (loc @ n) = None) weight_files"
  then obtain n where n: "n \<in> set weight_files" and none: "fs (loc @ n) = None"
    by (auto simp: list_ex_iff)
  from n have "n = ''grid_cells_core_pc_logits_w_0.npy'' \<or> n = ''grid_cells_core_pc_logits_b_0.npy''
      \<or> n = ''grid_cells_core_pc_logits_1_w_0.npy'' \<or> n = ''grid_cells_core_pc_logits_1_b_0.npy''
      \<or> n = ''grid_cells_core_bottleneck_w_0.npy''
      \<or> n = ''grid_cell_supervised_state_init_w_0.npy'' \<or> n = ''grid_cell_supervised_state_init_b_0.npy''
      \<or> n = ''grid_cell_supervised_cell_init_w_0.npy'' \<or> n = ''grid_cell_supervised_cell_init_b_0.npy''
      \<or> n = ''grid_cells_core_lstm_w_gates_0.npy'' \<or> n = ''grid_cells_core_lstm_b_gates_0.npy''"
    unfolding weight_files_def by (simp only: set_simps insert_iff empty_iff simp_thms)
  then show ?thesis
    using none
    by (elim disjE) (simp_all add: load_simps del: exec.simps split: option.splits)
qed

text \<open>The recurrent cell's four parameters, its sizes and the mode flags are not assigned.\<close>

lemma load_keeps_lstm:
  "weight_ih_l0 (lstm (fst (snd (init_weights_from_file fs loc (m, l))))) = weight_ih_l0 (lstm m)"
  "weight_hh_l0 (lstm (fst (snd (init_weights_from_file fs loc (m, l))))) = weight_hh_l0 (lstm m)"
  "bias_ih_l0 (lstm (fst (snd (init_weights_from_file fs loc (m, l))))) = bias_ih_l0 (lstm m)"
  "bias_hh_l0 (lstm (fst (snd (init_weights_from_file fs loc (m, l))))) = bias_hh_l0 (lstm m)"
  by (simp_all add: load_simps del: exec.simps split: option.splits sum.splits)


text \<open>A call that succeeds has found all eleven files, and then every call from that
  location assigns the same values to the same attributes, whatever the model.\<close>

lemma load_success_form:
  assumes "fst (init_weights_from_file fs loc (m0, l0)) = None"
  shows "\<exists>pc hl bw se ce lw lb. \<forall>m l. init_weights_from_file fs loc (m, l) =
      (None, (m\<lparr>pc_logits := pc, hd_logits := hl, bottleneck := (bottleneck m)\<lparr>weight := bw\<rparr>,
               state_embed := se, cell_embed := ce,
               lstm := (lstm m)\<lparr>lstm_weight := Some lw, lstm_bias := Some lb\<rparr>\<rparr>,
             l @ map ((@) loc) weight_files))"
proof -
  have "\<not> list_ex (\<lambda>n. fs (loc @ n) = None) weight_files"
    using assms load_missing[of fs loc m0 l0] by auto
  then obtain a1 a2 a3 a4 a5 a6 a7 a8 a9 a10 a11 where a:
    "fs (loc @ ''grid_cells_core_pc_logits_w_0.npy'') = Some a1"
    "fs (loc @ ''grid_cells_core_pc_logits_b_0.npy'') = Some a2"
    "fs (loc @ ''grid_cells_core_pc_logits_1_w_0.npy'') = Some a3"
    "fs (loc @ ''grid_cells_core_pc_logits_1_b_0.npy'') = Some a4"
    "fs (loc @ ''grid_cells_core_bottleneck_w_0.npy'') = Some a5"
    "fs (loc @ ''grid_cell_supervised_state_init_w_0.npy'') = Some a6"
    "fs (loc @ ''grid_cell_supervised_state_init_b_0.npy'') = Some a7"
    "fs (loc @ ''grid_cell_supervised_cell_init_w_0.npy'') = Some a8"
    "fs (loc @ ''grid_cell_supervised_cell_init_b_0.npy'') = Some a9"
    "fs (loc @ ''grid_cells_core_lstm_w_gates_0.npy'') = Some a10"
    "fs (loc @ ''grid_cells_core_lstm_b_gates_0.npy'') = Some a11"
    unfolding weight_files_def
    by (simp only: list_ex_Cons_iff list_ex_Nil_iff de_Morgan_disj not_None_eq simp_thms) blast
  have form: "init_weights_from_file fs loc (m, l) =
      (case transpose_1_0 (np_T a10) of
         Inl e \<Rightarrow> (Some e,
            (m\<lparr>pc_logits := \<lparr>weight = np_T a1, bias = Some (np_T a2)\<rparr>,
               hd_logits := \<lparr>weight = np_T a3, bias = Some (np_T a4)\<rparr>,
               bottleneck := (bottleneck m)\<lparr>weight := np_T a5\<rparr>,
               state_embed := \<lparr>weight = np_T a6, bias = Some (np_T a7)\<rparr>,
               cell_embed := \<lparr>weight = np_T a8, bias = Some (np_T a9)\<rparr>\<rparr>,
             l @ map ((@) loc) weight_files))
       | Inr w \<Rightarrow> (None,
            (m\<lparr>pc_logits := \<lparr>weight = np_T a1, bias = Some (np_T a2)\<rparr>,
               hd_logits := \<lparr>weight = np_T a3, bias = Some (np_T a4)\<rparr>,
               bottleneck := (bottleneck m)\<lparr>weight := np_T a5\<rparr>,
               state_embed := \<lparr>weight = np_T a6, bias = Some (np_T a7)\<rparr>,
               cell_embed := \<lparr>weight = np_T a8, bias = Some (np_T a9)\<rparr>,
               lstm := (lstm m)\<lparr>lstm_weight := Some w, lstm_bias := Some (np_T a11)\<rparr>\<rparr>,
             l @ map ((@) loc) weight_files)))" for m l
    by (simp add: load_simps a weight_files_def del: exec.simps split: sum.splits)
  from assms obtain w where "transpose_1_0 (np_T a10) = Inr w"
    by (cases "transpose_1_0 (np_T a10)") (simp_all add: form)
  then have "\<forall>m l. init_weights_from_file fs loc (m, l) =
      (None,
            (m\<lparr>pc_logits := \<lparr>weight = np_T a1, bias = Some (np_T a2)\<rparr>,
               hd_logits := \<lparr>weight = np_T a3, bias = Some (np_T a4)\<rparr>,
               bottleneck := (bottleneck m)\<lparr>weight := np_T a5\<rparr>,
               state_embed := \<lparr>weight = np_T a6, bias = Some (np_T a7)\<rparr>,
               cell_embed := \<lparr>weight = np_T a8, bias = Some (np_T a9)\<rparr>,
               lstm := (lstm m)\<lparr>lstm_weight := Some w, lstm_bias := Some (np_T a11)\<rparr>\<rparr>,
             l @ map ((@) loc) weight_files))"
    by (simp add: form)
  then show ?thesis
    by blast
qed


lemma load_log_prefix:
  "prefix (snd (snd (init_weights_from_file fs loc (m, [])))) (map ((@) loc) weight_files)"
  by (simp add: load_simps weight_files_def del: exec.simps split: option.splits sum.splits)

lemma weight_files_distinct: "length weight_files = 11 \<and> distinct weight_files"
  by (simp add: weight_files_def)

text \<open>Statements that treat two states alike keep doing so in sequence.\<close>

lemma exec_Cons_None: "fst (c s) = None \<Longrightarrow> exec (c # cs) s = exec cs (snd (c s))"
  by (cases "c s") auto

lemma exec_Cons_Some: "fst (c s) = Some e \<Longrightarrow> exec (c # cs) s = c s"
  by (cases "c s") auto

lemma exec_rel:
  assumes "\<And>c s s'. c \<in> set cs \<Longrightarrow> R s s' \<Longrightarrow> fst (c s) = fst (c s') \<and> R (snd (c s)) (snd (c s'))"
    and "R s s'"
  shows "fst (exec cs s) = fst (exec cs s') \<and> R (snd (exec cs s)) (snd (exec cs s'))"
  using assms
proof (induction cs arbitrary: s s')
  case Nil
  then show ?case by simp
next
  case (Cons c cs)
  have step: "fst (c s) = fst (c s') \<and> R (snd (c s)) (snd (c s'))"
    using Cons.prems by simp
  show ?case
  proof (cases "fst (c s)")
    case None
    then have "exec (c # cs) s = exec cs (snd (c s))" "exec (c # cs) s' = exec cs (snd (c s'))"
      using step by (simp_all add: exec_Cons_None del: exec.simps)
    moreover have "fst (exec cs (snd (c s))) = fst (exec cs (snd (c s')))
        \<and> R (snd (exec cs (snd (c s)))) (snd (exec cs (snd (c s'))))"
      using Cons.prems(1) step by (intro Cons.IH) auto
    ultimately show ?thesis by simp
  next
    case (Some e)
    then have "exec (c # cs) s = c s" "exec (c # cs) s' = c s'"
      using step by (simp_all add: exec_Cons_Some del: exec.simps)
    then show ?thesis using step by simp
  qed
qed

lemma load_target_ensembles:
  "fst (init_weights_from_file fs loc (m\<lparr>target_ensembles := x\<rparr>, l)) = fst (init_weights_from_file fs loc (m, l))
   \<and> fst (snd (init_weights_from_file fs loc (m\<lparr>target_ensembles := x\<rparr>, l)))
       = (fst (snd (init_weights_from_file fs loc (m, l))))\<lparr>target_ensembles := x\<rparr>"
proof -
  let ?R = "\<lambda>s s'. fst s' = (fst s)\<lparr>target_ensembles := x\<rparr> \<and> snd s' = snd (s :: load_state)"
  have "fst (init_weights_from_file fs loc (m, l)) = fst (init_weights_from_file fs loc (m\<lparr>target_ensembles := x\<rparr>, l))
      \<and> ?R (snd (init_weights_from_file fs loc (m, l))) (snd (init_weights_from_file fs loc (m\<lparr>target_ensembles := x\<rparr>, l)))"
    unfolding init_weights_from_file_def
  proof (rule exec_rel[where R = ?R])
    show "?R (m, l) (m\<lparr>target_ensembles := x\<rparr>, l)"
      by simp
  next
    fix c s s'
    assume c: "c \<in> set [assign_loaded fs (loc @ ''grid_cells_core_pc_logits_w_0.npy'')
        (\<lambda>a m. m\<lparr>pc_logits := (pc_logits m)\<lparr>weight := a\<rparr>\<rparr>),
      assign_loaded fs (loc @ ''grid_cells_core_pc_logits_b_0.npy'')
        (\<lambda>a m. m\<lparr>pc_logits := (pc_logits m)\<lparr>bias := Some a\<rparr>\<rparr>),
      assign_loaded fs (loc @ ''grid_cells_core_pc_logits_1_w_0.npy'')
        (\<lambda>a m. m\<lparr>hd_logits := (hd_logits m)\<lparr>weight := a\<rparr>\<rparr>),
      assign_loaded fs (loc @ ''grid_cells_core_pc_logits_1_b_0.npy'')
        (\<lambda>a m. m\<lparr>hd_logits := (hd_logits m)\<lparr>bias := Some a\<rparr>\<rparr>),
      assign_loaded fs (loc @ ''grid_cells_core_bottleneck_w_0.npy'')
        (\<lambda>a m. m\<lparr>bottleneck := (bottleneck m)\<lparr>weight := a\<rparr>\<rparr>),
      assign_loaded fs (loc @ ''grid_cell_supervised_state_init_w_0.npy'')
        (\<lambda>a m. m\<lparr>state_embed := (state_embed m)\<lparr>weight := a\<rparr>\<rparr>),
      assign_loaded fs (loc @ ''grid_cell_supervised_state_init_b_0.npy'')
        (\<lambda>a m. m\<lparr>state_embed := (state_embed m)\<lparr>bias := Some a\<rparr>\<rparr>),
      assign_loaded fs (loc @ ''grid_cell_supervised_cell_init_w_0.npy'')
        (\<lambda>a m. m\<lparr>cell_embed := (cell_embed m)\<lparr>weight := a\<rparr>\<rparr>),
      assign_loaded fs (loc @ ''grid_cell_supervised_cell_init_b_0.npy'')
        (\<lambda>a m. m\<lparr>cell_embed := (cell_embed m)\<lparr>bias := Some a\<rparr>\<rparr>),
      assign_lstm_gates fs loc]"
      and r: "?R s s'"
    from c show "fst (c s) = fst (c s') \<and> ?R (snd (c s)) (snd (c s'))"
      unfolding set_simps insert_iff empty_iff
      using r
      by (elim disjE)
        (simp_all add: assign_loaded_def assign_lstm_gates_def np_load_def Let_def
          split: option.splits sum.splits)
  qed
  then show ?thesis
    by simp
qed

lemma np_T_one: "np_T \<lparr>shape = [Suc 0, Suc 0], vals = [v]\<rparr> = \<lparr>shape = [Suc 0, Suc 0], vals = [v]\<rparr>"
  by (simp add: np_T_def numel_def rows_of_def)

lemma transpose_1_0_one:
  "transpose_1_0 \<lparr>shape = [Suc 0, Suc 0], vals = [v]\<rparr> = Inr \<lparr>shape = [Suc 0, Suc 0], vals = [v]\<rparr>"
  by (simp add: transpose_1_0_def numel_def rows_of_def)

lemma all_files_load:
  "init_weights_from_file all_files loc (m, l) =
    (None,
     (m\<lparr>pc_logits := \<lparr>weight = \<lparr>shape = [1, 1], vals = [7]\<rparr>, bias = Some \<lparr>shape = [1, 1], vals = [7]\<rparr>\<rparr>,
        hd_logits := \<lparr>weight = \<lparr>shape = [1, 1], vals = [7]\<rparr>, bias = Some \<lparr>shape = [1, 1], vals = [7]\<rparr>\<rparr>,
        bottleneck := (bottleneck m)\<lparr>weight := \<lparr>shape = [1, 1], vals = [7]\<rparr>\<rparr>,
        state_embed := \<lparr>weight = \<lparr>shape = [1, 1], vals = [7]\<rparr>, bias = Some \<lparr>shape = [1, 1], vals = [7]\<rparr>\<rparr>,
        cell_embed := \<lparr>weight = \<lparr>shape = [1, 1], vals = [7]\<rparr>, bias = Some \<lparr>shape = [1, 1], vals = [7]\<rparr>\<rparr>,
        lstm := (lstm m)\<lparr>lstm_weight := Some \<lparr>shape = [1, 1], vals = [7]\<rparr>,
                          lstm_bias := Some \<lparr>shape = [1, 1], vals = [7]\<rparr>\<rparr>\<rparr>,
      l @ map ((@) loc) weight_files))"
  by (simp add: load_simps all_files_def np_T_one transpose_1_0_one weight_files_def del: exec.simps)

text \<open>
  Claim C8. When a loading call succeeds, a second call from the same location succeeds
  too and leaves the model exactly as the first call left it; and a call from that
  location on any other model succeeds and assigns the same values to the attributes
  that loading assigns.
\<close>

theorem load_twice_same_parameters:
  assumes "fst (load_outcome fs loc m) = None"
  shows "load_outcome fs loc (snd (load_outcome fs loc m)) = (None, snd (load_outcome fs loc m))
    \<and> fst (load_outcome fs loc m') = None
    \<and> loaded_parameters (snd (load_outcome fs loc m')) = loaded_parameters (snd (load_outcome fs loc m))"
proof -
  have "fst (init_weights_from_file fs loc (m, [])) = None"
    using assms by (simp add: load_outcome_def Let_def)
  then obtain pc hl bw se ce lw lb where form: "\<And>m l. init_weights_from_file fs loc (m, l) =
      (None, (m\<lparr>pc_logits := pc, hd_logits := hl, bottleneck := (bottleneck m)\<lparr>weight := bw\<rparr>,
               state_embed := se, cell_embed := ce,
               lstm := (lstm m)\<lparr>lstm_weight := Some lw, lstm_bias := Some lb\<rparr>\<rparr>,
             l @ map ((@) loc) weight_files))"
    using load_success_form[of fs loc m "[]"] by blast
  show ?thesis
    by (simp add: load_outcome_def Let_def form loaded_parameters_def)
qed

theorem load_twice_same_parameters_witness:
  "fst (load_outcome all_files ''weights/'' example_model) = None
   \<and> load_outcome all_files ''weights/'' (snd (load_outcome all_files ''weights/'' example_model))
       = (None, snd (load_outcome all_files ''weights/'' example_model))
   \<and> weight (pc_logits (snd (load_outcome all_files ''weights/'' example_model))) = \<lparr>shape = [1, 1], vals = [7]\<rparr>
   \<and> loaded_parameters (snd (load_outcome all_files ''weights/'' (eval_mode example_model)))
       = loaded_parameters (snd (load_outcome all_files ''weights/'' example_model))"
proof -
  have h: "fst (load_outcome all_files ''weights/'' example_model) = None"
    by (simp add: load_outcome_def Let_def all_files_load)
  have "weight (pc_logits (snd (load_outcome all_files ''weights/'' example_model))) = \<lparr>shape = [1, 1], vals = [7]\<rparr>"
    by (simp add: load_outcome_def Let_def all_files_load)
  then show ?thesis
    using h load_twice_same_parameters [OF h, of "eval_mode example_model"] by simp
qed

lemma init_Some_loc:
  assumes "2 \<le> length tes" and "0 \<le> p" and "p \<le> 1" and "loc \<noteq> []" and "0 < H"
  shows "\<exists>m0. GridTorch_init r fs tes H NB NP ND p hb None = Inr m0
    \<and> GridTorch_init r fs tes H NB NP ND p hb (Some loc) =
        (case fst (init_weights_from_file fs loc (m0, [])) of
           Some e \<Rightarrow> Inl e
         | None \<Rightarrow> Inr (fst (snd (init_weights_from_file fs loc (m0, [])))))"
  using assms
  by (auto simp: GridTorch_init_def nn_LSTM_def py_index_def Let_def nn_Dropout_def
      split: prod.splits option.splits)

text \<open>
  Claim C9, as the code has it. With a non-empty weights location, and arguments that the
  constructor accepts up to the loading call (at least two target ensembles, a dropout
  rate in \<open>[0, 1]\<close>, a positive recurrent width), construction fails with
  \<open>FileNotFoundError\<close> as soon as one of the expected files is absent: nothing in the
  module catches the exception or tries again. The expected files are eleven, not
  eight: a loading call that succeeds has opened exactly these eleven paths, each once
  and in this order, and a call that fails has opened an initial part of them.
\<close>

theorem missing_file_fails_construction:
  assumes "2 \<le> length tes" and "0 \<le> p" and "p \<le> 1" and "loc \<noteq> []" and "0 < H"
  shows "(list_ex (\<lambda>n. fs (loc @ n) = None) weight_files
            \<longrightarrow> GridTorch_init r fs tes H NB NP ND p hb (Some loc) = Inl FileNotFoundError)
    \<and> (list_ex (\<lambda>n. fs (loc @ n) = None) weight_files
            \<longrightarrow> fst (init_weights_from_file fs loc (m, [])) = Some FileNotFoundError)
    \<and> (fst (init_weights_from_file fs loc (m, [])) = None
            \<longrightarrow> snd (snd (init_weights_from_file fs loc (m, []))) = map ((@) loc) weight_files)
    \<and> prefix (snd (snd (init_weights_from_file fs loc (m, [])))) (map ((@) loc) weight_files)
    \<and> length weight_files = 11 \<and> distinct weight_files"
proof -
  obtain m0 where m0: "GridTorch_init r fs tes H NB NP ND p hb (Some loc) =
        (case fst (init_weights_from_file fs loc (m0, [])) of
           Some e \<Rightarrow> Inl e
         | None \<Rightarrow> Inr (fst (snd (init_weights_from_file fs loc (m0, [])))))"
    using init_Some_loc[OF assms] by blast
  have a: "list_ex (\<lambda>n. fs (loc @ n) = None) weight_files
            \<longrightarrow> GridTorch_init r fs tes H NB NP ND p hb (Some loc) = Inl FileNotFoundError"
    by (simp add: m0 load_missing)
  have b: "fst (init_weights_from_file fs loc (m, [])) = None
            \<longrightarrow> snd (snd (init_weights_from_file fs loc (m, []))) = map ((@) loc) weight_files"
  proof
    assume "fst (init_weights_from_file fs loc (m, [])) = None"
    then obtain pc hl bw se ce lw lb where "\<And>m l. init_weights_from_file fs loc (m, l) =
      (None, (m\<lparr>pc_logits := pc, hd_logits := hl, bottleneck := (bottleneck m)\<lparr>weight := bw\<rparr>,
               state_embed := se, cell_embed := ce,
               lstm := (lstm m)\<lparr>lstm_weight := Some lw, lstm_bias := Some lb\<rparr>\<rparr>,
             l @ map ((@) loc) weight_files))"
      using load_success_form[of fs loc m "[]"] by blast
    then show "snd (snd (init_weights_from_file fs loc (m, []))) = map ((@) loc) weight_files"
      by simp
  qed
  show ?thesis
    using a b load_missing[of fs loc m "[]"] load_log_prefix[of fs loc m] weight_files_distinct
    by blast
qed

theorem missing_file_fails_construction_witness:
  "2 \<le> length [\<lparr>n_cells = 1\<rparr>, \<lparr>n_cells = 1\<rparr>] \<and> (0 :: real) \<le> 1 / 2 \<and> (1 / 2 :: real) \<le> 1 \<and> ''weights/'' \<noteq> []
   \<and> (0::nat) < 2
   \<and> list_ex (\<lambda>n. no_files (''weights/'' @ n) = None) weight_files
   \<and> GridTorch_init (const_rng 1 0) no_files [\<lparr>n_cells = 1\<rparr>, \<lparr>n_cells = 1\<rparr>] 2 2 1 1 (1 / 2) False (Some ''weights/'')
       = Inl FileNotFoundError
   \<and> fst (init_weights_from_file all_files ''weights/'' (example_model, [])) = None
   \<and> snd (snd (init_weights_from_file all_files ''weights/'' (example_model, []))) = map ((@) ''weights/'') weight_files"
proof -
  have h: "2 \<le> length [\<lparr>n_cells = 1\<rparr>, \<lparr>n_cells = 1\<rparr>]" "(0 :: real) \<le> 1 / 2" "(1 / 2 :: real) \<le> 1" "''weights/'' \<noteq> []"
    "(0::nat) < 2"
    by simp_all
  have miss: "list_ex (\<lambda>n. no_files (''weights/'' @ n) = None) weight_files"
    by (simp add: no_files_def weight_files_def)
  have ok: "fst (init_weights_from_file all_files ''weights/'' (example_model, [])) = None"
    by (simp add: all_files_load)
  have "GridTorch_init (const_rng 1 0) no_files [\<lparr>n_cells = 1\<rparr>, \<lparr>n_cells = 1\<rparr>] 2 2 1 1 (1 / 2) False (Some ''weights/'')
       = Inl FileNotFoundError"
    using missing_file_fails_construction [OF h, of no_files "const_rng 1 0" 2 1 1 False] miss by blast
  moreover have "snd (snd (init_weights_from_file all_files ''weights/'' (example_model, []))) = map ((@) ''weights/'') weight_files"
    using missing_file_fails_construction [OF h, of all_files _ _ _ _ _ example_model] ok by blast
  ultimately show ?thesis
    using h miss ok by blast
qed

text \<open>
  The claim's count fails: with every file present, one loading call opens eleven files.
\<close>

theorem load_opens_eleven_files:
  "fst (init_weights_from_file all_files ''weights/'' (example_model, [])) = None
   \<and> length (snd (snd (init_weights_from_file all_files ''weights/'' (example_model, [])))) = 11
   \<and> length (snd (snd (init_weights_from_file all_files ''weights/'' (example_model, [])))) \<noteq> 8"
  by (simp add: all_files_load weight_files_def)

text \<open>
  Claim C2 fails on the recurrent cell. A loading call assigns the two gate arrays to the
  attributes \<open>lstm_weight\<close> and \<open>lstm_bias\<close>; the four parameters that the recurrence
  reads keep the values they had before the call (\<open>load_keeps_lstm\<close>). The forward pass
  never reads \<open>lstm_weight\<close> (\<open>forward_ignores_lstm_weight\<close> below), and \<open>lstm_bias\<close> is
  where the library keeps the flag of the cell, so that after the assignment a forward
  call raises \<open>TypeError\<close> (\<open>forward_flag_overwritten\<close> below). Here every file holds
  \<open>[[7]]\<close>: the call succeeds, the gate arrays arrive in \<open>lstm_weight\<close> and \<open>lstm_bias\<close>,
  and the recurrent weights and biases of the example model are still all zero.
\<close>

theorem load_leaves_recurrent_parameters:
  "fst (load_outcome all_files ''weights/'' example_model) = None
   \<and> lstm_weight (lstm (snd (load_outcome all_files ''weights/'' example_model))) = Some \<lparr>shape = [1, 1], vals = [7]\<rparr>
   \<and> lstm_bias (lstm (snd (load_outcome all_files ''weights/'' example_model))) = Some \<lparr>shape = [1, 1], vals = [7]\<rparr>
   \<and> weight_ih_l0 (lstm (snd (load_outcome all_files ''weights/'' example_model))) = \<lparr>shape = [8, 3], vals = replicate 24 0\<rparr>
   \<and> weight_hh_l0 (lstm (snd (load_outcome all_files ''weights/'' example_model))) = \<lparr>shape = [8, 2], vals = replicate 16 0\<rparr>
   \<and> bias_ih_l0 (lstm (snd (load_outcome all_files ''weights/'' example_model))) = \<lparr>shape = [8], vals = replicate 8 0\<rparr>
   \<and> bias_hh_l0 (lstm (snd (load_outcome all_files ''weights/'' example_model))) = \<lparr>shape = [8], vals = replicate 8 0\<rparr>"
  by (simp add: load_outcome_def Let_def all_files_load) (simp add: example_model_def)

section \<open>The target ensembles\<close>

lemma init_invalid_dropout:
  "2 \<le> length tes \<Longrightarrow> p < 0 \<or> 1 < p \<Longrightarrow> 0 < H
    \<Longrightarrow> GridTorch_init r fs tes H NB NP ND p hb wl = Inl ValueError"
  by (auto simp: GridTorch_init_def nn_LSTM_def py_index_def Let_def nn_Dropout_def)

lemma init_empty_loc:
  "GridTorch_init r fs tes H NB NP ND p hb (Some []) = GridTorch_init r fs tes H NB NP ND p hb None"
  by (simp add: GridTorch_init_def Let_def split: sum.splits)

lemma init_append_None:
  assumes "2 \<le> length tes" and "GridTorch_init r fs tes H NB NP ND p hb None = Inr m0"
  shows "GridTorch_init r fs (tes @ extra) H NB NP ND p hb None = Inr (m0\<lparr>target_ensembles := tes @ extra\<rparr>)"
  using assms
  by (auto simp: GridTorch_init_def nn_LSTM_def py_index_def Let_def nth_append
      split: sum.splits if_splits)

lemma init_append:
  assumes "2 \<le> length tes"
  shows "GridTorch_init r fs (tes @ extra) H NB NP ND p hb wl =
      map_sum id (\<lambda>m. m\<lparr>target_ensembles := tes @ extra\<rparr>) (GridTorch_init r fs tes H NB NP ND p hb wl)"
proof (cases "H = 0")
  case True
  then show ?thesis
    by (simp add: init_zero_width)
next
  case False
  then have H: "0 < H"
    by simp
  show ?thesis
  proof (cases "p < 0 \<or> 1 < p")
    case True
    then show ?thesis
      using assms H by (simp add: init_invalid_dropout)
  next
    case False
    then have p: "0 \<le> p" "p \<le> 1"
      by auto
    obtain m0 where m0: "GridTorch_init r fs tes H NB NP ND p hb None = Inr m0"
      using init_None_ok[OF assms p H] by blast
    have m1: "GridTorch_init r fs (tes @ extra) H NB NP ND p hb None = Inr (m0\<lparr>target_ensembles := tes @ extra\<rparr>)"
      using assms m0 by (rule init_append_None)
    show ?thesis
    proof (cases "wl = None \<or> wl = Some []")
      case True
      then show ?thesis
        using m0 m1 by (auto simp: init_empty_loc)
    next
      case False
      then obtain loc where loc: "wl = Some loc" "loc \<noteq> []"
        by (cases wl) auto
      have len: "2 \<le> length (tes @ extra)"
        using assms by simp
      have a: "GridTorch_init r fs tes H NB NP ND p hb (Some loc) =
          (case fst (init_weights_from_file fs loc (m0, [])) of
             Some e \<Rightarrow> Inl e
           | None \<Rightarrow> Inr (fst (snd (init_weights_from_file fs loc (m0, [])))))"
        using init_Some_loc[OF assms p loc(2) H, of r fs NB NP ND hb] m0 by auto
      have b: "GridTorch_init r fs (tes @ extra) H NB NP ND p hb (Some loc) =
          (case fst (init_weights_from_file fs loc (m0\<lparr>target_ensembles := tes @ extra\<rparr>, [])) of
             Some e \<Rightarrow> Inl e
           | None \<Rightarrow> Inr (fst (snd (init_weights_from_file fs loc (m0\<lparr>target_ensembles := tes @ extra\<rparr>, [])))))"
        using init_Some_loc[OF len p loc(2) H, of r fs NB NP ND hb] m1 by auto
      show ?thesis
        by (simp add: loc a b load_target_ensembles split: option.splits)
    qed
  qed
qed

text \<open>
  Claim C10, as the code has it. With a positive recurrent width, construction fails with
  an index error when fewer than two target ensembles are given (a recurrent width of
  zero is refused before the list is indexed, with a value error), so a constructed model
  had at least two. Of a longer list, only elements 0 and 1 are read: ensembles after the
  first two change nothing in the result but the stored list itself. Without pretrained
  weights the two output layers have the widths \<open>n_cells\<close> of elements 0 and 1.
\<close>

theorem init_reads_first_two_ensembles:
  "(length tes < 2 \<and> 0 < H \<longrightarrow> GridTorch_init r fs tes H NB NP ND p hb wl = Inl IndexError)
   \<and> GridTorch_init r fs tes 0 NB NP ND p hb wl = Inl ValueError
   \<and> (GridTorch_init r fs tes H NB NP ND p hb wl = Inr m \<longrightarrow> 2 \<le> length tes \<and> 0 < H)
   \<and> (2 \<le> length tes \<longrightarrow>
        GridTorch_init r fs (tes @ extra) H NB NP ND p hb wl =
          map_sum id (\<lambda>m. m\<lparr>target_ensembles := tes @ extra\<rparr>) (GridTorch_init r fs tes H NB NP ND p hb wl))
   \<and> (GridTorch_init r fs tes H NB NP ND p hb None = Inr m' \<longrightarrow>
        shape (weight (pc_logits m')) = [n_cells (tes ! 0), NB]
        \<and> map_option shape (bias (pc_logits m')) = Some [n_cells (tes ! 0)]
        \<and> shape (weight (hd_logits m')) = [n_cells (tes ! 1), NB]
        \<and> map_option shape (bias (hd_logits m')) = Some [n_cells (tes ! 1)])"
proof -
  have "GridTorch_init r fs tes H NB NP ND p hb None = Inr m' \<longrightarrow>
        shape (weight (pc_logits m')) = [n_cells (tes ! 0), NB]
        \<and> map_option shape (bias (pc_logits m')) = Some [n_cells (tes ! 0)]
        \<and> shape (weight (hd_logits m')) = [n_cells (tes ! 1), NB]
        \<and> map_option shape (bias (hd_logits m')) = Some [n_cells (tes ! 1)]"
    by (auto simp: init_None_weights init_None_biases)
  then show ?thesis
    using init_fails_short[of tes H r fs NB NP ND p hb wl]
      init_zero_width[of r fs tes NB NP ND p hb wl]
      init_Inr_length[of r fs tes H NB NP ND p hb wl m]
      init_Inr_width[of r fs tes H NB NP ND p hb wl m]
      init_append[of tes r fs extra H NB NP ND p hb wl]
    by blast
qed

theorem init_reads_first_two_ensembles_witness:
  "length [\<lparr>n_cells = 4\<rparr>] < 2 \<and> (0::nat) < 8
   \<and> GridTorch_init (const_rng 1 0) no_files [\<lparr>n_cells = 4\<rparr>] 8 8 4 2 (1 / 2) False None = Inl IndexError
   \<and> 2 \<le> length [\<lparr>n_cells = 4\<rparr>, \<lparr>n_cells = 2\<rparr>]
   \<and> GridTorch_init (const_rng 1 0) no_files ([\<lparr>n_cells = 4\<rparr>, \<lparr>n_cells = 2\<rparr>] @ [\<lparr>n_cells = 9\<rparr>]) 8 8 4 2 (1 / 2) False None
       = map_sum id (\<lambda>m. m\<lparr>target_ensembles := [\<lparr>n_cells = 4\<rparr>, \<lparr>n_cells = 2\<rparr>] @ [\<lparr>n_cells = 9\<rparr>]\<rparr>)
           (GridTorch_init (const_rng 1 0) no_files [\<lparr>n_cells = 4\<rparr>, \<lparr>n_cells = 2\<rparr>] 8 8 4 2 (1 / 2) False None)
   \<and> (\<exists>m. GridTorch_init (const_rng 1 0) no_files [\<lparr>n_cells = 4\<rparr>, \<lparr>n_cells = 2\<rparr>, \<lparr>n_cells = 9\<rparr>] 8 8 4 2 (1 / 2) False None = Inr m
        \<and> 2 \<le> length [\<lparr>n_cells = 4\<rparr>, \<lparr>n_cells = 2\<rparr>, \<lparr>n_cells = 9\<rparr>]
        \<and> shape (weight (pc_logits m)) = [4, 8] \<and> shape (weight (hd_logits m)) = [2, 8])"
proof -
  have s: "length [\<lparr>n_cells = 4\<rparr>] < 2" and l: "2 \<le> length [\<lparr>n_cells = 4\<rparr>, \<lparr>n_cells = 2\<rparr>]"
    and H: "(0::nat) < 8"
    by simp_all
  obtain m where m: "GridTorch_init (const_rng 1 0) no_files [\<lparr>n_cells = 4\<rparr>, \<lparr>n_cells = 2\<rparr>, \<lparr>n_cells = 9\<rparr>] 8 8 4 2 (1 / 2) False None = Inr m"
    using init_None_ok[of "[\<lparr>n_cells = 4\<rparr>, \<lparr>n_cells = 2\<rparr>, \<lparr>n_cells = 9\<rparr>]" "1 / 2" 8] by force
  have a: "GridTorch_init (const_rng 1 0) no_files [\<lparr>n_cells = 4\<rparr>] 8 8 4 2 (1 / 2) False None = Inl IndexError"
    using init_reads_first_two_ensembles
      [where tes = "[\<lparr>n_cells = 4\<rparr>]" and H = 8 and r = "const_rng 1 0" and fs = no_files
        and NB = 8 and NP = 4 and ND = 2 and p = "1 / 2" and hb = False and wl = None] s H
    by blast
  have b: "GridTorch_init (const_rng 1 0) no_files ([\<lparr>n_cells = 4\<rparr>, \<lparr>n_cells = 2\<rparr>] @ [\<lparr>n_cells = 9\<rparr>]) 8 8 4 2 (1 / 2) False None
       = map_sum id (\<lambda>m. m\<lparr>target_ensembles := [\<lparr>n_cells = 4\<rparr>, \<lparr>n_cells = 2\<rparr>] @ [\<lparr>n_cells = 9\<rparr>]\<rparr>)
           (GridTorch_init (const_rng 1 0) no_files [\<lparr>n_cells = 4\<rparr>, \<lparr>n_cells = 2\<rparr>] 8 8 4 2 (1 / 2) False None)"
    using init_reads_first_two_ensembles
      [where tes = "[\<lparr>n_cells = 4\<rparr>, \<lparr>n_cells = 2\<rparr>]" and H = 8 and r = "const_rng 1 0" and fs = no_files
        and NB = 8 and NP = 4 and ND = 2 and p = "1 / 2" and hb = False and wl = None] l
    by blast
  have c: "2 \<le> length [\<lparr>n_cells = 4\<rparr>, \<lparr>n_cells = 2\<rparr>, \<lparr>n_cells = 9\<rparr>]
      \<and> shape (weight (pc_logits m)) = [4, 8] \<and> shape (weight (hd_logits m)) = [2, 8]"
    using init_reads_first_two_ensembles
      [where tes = "[\<lparr>n_cells = 4\<rparr>, \<lparr>n_cells = 2\<rparr>, \<lparr>n_cells = 9\<rparr>]" and H = 8 and r = "const_rng 1 0"
        and fs = no_files and NB = 8 and NP = 4 and ND = 2 and p = "1 / 2" and hb = False and wl = None
        and m = m and m' = m] m
    by simp
  show ?thesis
    using s l H a b c m by blast
qed

text \<open>
  The claim fails where it is unqualified. With a weights location the widths of the
  output layers are those of the loaded arrays: here the ensembles have 4 and 2 cells and
  every file holds a one-by-one array, and both layers end with a weight of shape
  \<open>[1, 1]\<close>. And with a recurrent width of zero an empty list of ensembles fails with a
  value error, not with an out-of-range access.
\<close>

theorem loaded_head_widths_come_from_files:
  "(case GridTorch_init (const_rng 1 0) all_files [\<lparr>n_cells = 4\<rparr>, \<lparr>n_cells = 2\<rparr>] 8 8 4 2 (1 / 2) False (Some ''weights/'') of
      Inl e \<Rightarrow> False
    | Inr m \<Rightarrow>
        shape (weight (pc_logits m)) = [1, 1] \<and> shape (weight (hd_logits m)) = [1, 1]
        \<and> map n_cells (target_ensembles m) = [4, 2])
   \<and> GridTorch_init (const_rng 1 0) no_files [] 0 8 4 2 (1 / 2) False None = Inl ValueError"
proof -
  let ?tes = "[\<lparr>n_cells = 4\<rparr>, \<lparr>n_cells = 2\<rparr>]"
  obtain m0 where m0: "GridTorch_init (const_rng 1 0) all_files ?tes 8 8 4 2 (1 / 2) False None = Inr m0"
    and l: "GridTorch_init (const_rng 1 0) all_files ?tes 8 8 4 2 (1 / 2) False (Some ''weights/'') =
        (case fst (init_weights_from_file all_files ''weights/'' (m0, [])) of
           Some e \<Rightarrow> Inl e
         | None \<Rightarrow> Inr (fst (snd (init_weights_from_file all_files ''weights/'' (m0, [])))))"
    using init_Some_loc[of ?tes "1 / 2" "''weights/''" 8 "const_rng 1 0" all_files 8 4 2 False] by auto
  have t: "target_ensembles m0 = ?tes"
    using init_None_fields(13)[OF m0] .
  show ?thesis
    by (simp add: l all_files_load t init_zero_width)
qed

section \<open>Properties of the forward recurrence\<close>

subsection \<open>What the recurrence reads\<close>

lemma lstm_cell_attrs:
  "lstm_cell (l\<lparr>lstm_weight := w\<rparr>) = lstm_cell l"
  "lstm_cell (l\<lparr>lstm_bias := b\<rparr>) = lstm_cell l"
  by (rule ext, rule ext, simp add: lstm_cell_def)+

lemma lstm_seq_cong:
  "lstm_cell l' = lstm_cell l \<Longrightarrow> lstm_seq l' hcs xss = lstm_seq l hcs xss"
  by (induction xss arbitrary: hcs) (simp_all add: Let_def)

lemma lstm_forward_weight_attr:
  "lstm_forward (l\<lparr>lstm_weight := w\<rparr>) input hx = lstm_forward l input hx"
  by (auto simp: lstm_forward_def lstm_seq_cong[OF lstm_cell_attrs(1)] Let_def
      split: list.splits option.splits)

lemma loop_body_weight_attr:
  "loop_body (m\<lparr>lstm := (lstm m)\<lparr>lstm_weight := w\<rparr>\<rparr>) keep bs = loop_body m keep bs"
  by (rule ext)+ (simp add: loop_body_def lstm_forward_weight_attr Let_def cong: sum.case_cong)

text \<open>The forward pass does not read the attribute \<open>lstm_weight\<close>. It does read
  \<open>lstm_bias\<close>, but only as the flag: see \<open>forward_flag_overwritten\<close> below.\<close>

lemma forward_ignores_lstm_weight:
  "forward (m\<lparr>lstm := (lstm m)\<lparr>lstm_weight := w\<rparr>\<rparr>) keep x ic = forward m keep x ic"
  by (simp add: forward_def loop_body_weight_attr cong: sum.case_cong)

subsection \<open>Determinism in evaluation mode\<close>

lemma dropout_forward_eval: "dropout_forward False p k t = t"
  by (simp add: dropout_forward_def)

lemma loop_body_eval:
  "\<not> training m \<Longrightarrow> loop_body m keep bs = loop_body m keep' bs"
  by (rule ext)+ (simp add: loop_body_def dropout_forward_eval Let_def cong: sum.case_cong)

text \<open>In training mode the masks do matter: at rate \<open>1/2\<close> a kept element is doubled
  and a dropped one is zero.\<close>

lemma dropout_forward_training_example:
  "dropout_forward True (1 / 2) (keep_all 0) \<lparr>shape = [2], vals = [1, 1]\<rparr> = \<lparr>shape = [2], vals = [2, 2]\<rparr>
   \<and> dropout_forward True (1 / 2) (drop_all 0) \<lparr>shape = [2], vals = [1, 1]\<rparr> = \<lparr>shape = [2], vals = [0, 0]\<rparr>"
  by (simp add: dropout_forward_def keep_all_def drop_all_def upt_rec)

lemma dropout_forward_zero: "dropout_forward tr 0 k t = t"
  by (simp add: dropout_forward_def)

lemma loop_body_no_dropout:
  "dropout m = 0 \<Longrightarrow> loop_body m keep bs = loop_body m keep' bs"
  by (rule ext)+ (simp add: loop_body_def dropout_forward_zero Let_def cong: sum.case_cong)

subsection \<open>Shapes\<close>

lemma linear_forward_shape:
  assumes "linear_shaped l i o'" and "shape x \<noteq> []" and "last (shape x) = i"
  shows "\<exists>y. linear_forward l x = Inr y \<and> shape y = butlast (shape x) @ [o']"
  using assms by (auto simp: linear_forward_def linear_shaped_def split: option.splits)

lemma linear_forward_mismatch:
  assumes "linear_shaped l i o'" and "shape x = [] \<or> last (shape x) \<noteq> i"
  shows "linear_forward l x = Inl RuntimeError"
  using assms by (auto simp: linear_forward_def linear_shaped_def split: option.splits)

lemma lstm_forward_shape:
  assumes "shaped m E H NB n_pc n_hd"
    and "shape input = [len, b, 3]" and "shape h = [1, b, H]" and "shape c = [1, b, H]"
  shows "\<exists>out h' c'. lstm_forward (lstm m) input (h, c) = Inr (out, h', c')
    \<and> shape h' = [1, b, H] \<and> shape c' = [1, b, H]"
  using assms by (simp add: lstm_forward_def shaped_def Let_def)

lemma lstm_forward_bad_state:
  assumes "shaped m E H NB n_pc n_hd"
    and "shape input = [len, b, 3]" and "length (shape h) \<noteq> 3"
  shows "lstm_forward (lstm m) input (h, c) = Inl RuntimeError"
  using assms by (simp add: lstm_forward_def shaped_def Let_def)

lemma view_1_b_ok:
  "0 < b \<Longrightarrow> numel (shape t) = b * k \<Longrightarrow> view_1_b t b = Inr (t\<lparr>shape := [1, b, k]\<rparr>)"
  by (simp add: view_1_b_def)

lemma shape_dropout [simp]: "shape (dropout_forward tr p k t) = shape t"
  by (simp add: dropout_forward_def)

lemma stack_shape:
  assumes "ts \<noteq> []" and "list_all (\<lambda>t. shape t = sh) ts"
  shows "\<exists>y. stack ts = Inr y \<and> shape y = length ts # sh"
  using assms by (cases ts) (auto simp: stack_def list_all_iff)

lemma cat1_pair:
  assumes "shape p0 = [b, w0]" and "shape d0 = [b, w1]"
  shows "\<exists>y. cat1 [p0, d0] = Inr y \<and> shape y = [b, w0 + w1]"
  using assms by (simp add: cat1_def Let_def)

lemma unbind0_shape:
  assumes "shape x = n # sh"
  shows "length (unbind0 x) = n \<and> list_all (\<lambda>t. shape t = sh) (unbind0 x)"
  using assms by (simp add: unbind0_def Let_def list_all_iff)

text \<open>One iteration with a batch of at least two and a recurrent width of at least two
  keeps the invariant.\<close>

lemma loop_body_inv:
  assumes m: "shaped m E H NB n_pc n_hd" and B: "2 \<le> B" and H: "2 \<le> H"
    and t: "shape t = [B, 3]" and inv: "loop_inv B H NB n_pc n_hd k s"
  shows "\<exists>s'. loop_body m keep B s t = Inr s' \<and> loop_inv B H NB n_pc n_hd (Suc k) s'"
proof -
  have v: "view_1_b t B = Inr (t\<lparr>shape := [Suc 0, B, 3]\<rparr>)"
    using B t view_1_b_ok[of B t 3] by (simp add: numel_def)
  obtain out h' c' where l: "lstm_forward (lstm m) (t\<lparr>shape := [Suc 0, B, 3]\<rparr>) (unsqueeze0 (h_t s), unsqueeze0 (c_t s)) = Inr (out, h', c')"
    and h': "shape h' = [1, B, H]" and c': "shape c' = [1, B, H]"
    using lstm_forward_shape[OF m, of "t\<lparr>shape := [Suc 0, B, 3]\<rparr>" "Suc 0" B "unsqueeze0 (h_t s)" "unsqueeze0 (c_t s)"] inv
    by (auto simp: loop_inv_def unsqueeze0_def)
  have sh: "shape (squeeze h') = [B, H]" and sc: "shape (squeeze c') = [B, H]"
    using h' c' B H by (simp_all add: squeeze_def)
  have lin: "linear_shaped (bottleneck m) H NB" "linear_shaped (pc_logits m) NB n_pc"
    "linear_shaped (hd_logits m) NB n_hd"
    using m by (simp_all add: shaped_def)
  obtain b where b: "linear_forward (bottleneck m) (squeeze h') = Inr b" and sb: "shape b = [B, NB]"
    using linear_forward_shape[OF lin(1), of "squeeze h'"] sh by auto
  let ?a = "dropout_forward (training m) (dropout m) (keep (length (logits_hd s))) b"
  have sa: "shape ?a = [B, NB]"
    using sb by simp
  obtain pc where pc: "linear_forward (pc_logits m) ?a = Inr pc" and spc: "shape pc = [B, n_pc]"
    using linear_forward_shape[OF lin(2), of ?a] sa by auto
  obtain hdp where hdp: "linear_forward (hd_logits m) ?a = Inr hdp" and shd: "shape hdp = [B, n_hd]"
    using linear_forward_shape[OF lin(3), of ?a] sa by auto
  have "loop_body m keep B s t =
      Inr \<lparr>h_t = squeeze h', c_t = squeeze c',
           logits_hd = logits_hd s @ [hdp],
           logits_pc = logits_pc s @ [pc],
           bottleneck_acts = bottleneck_acts s @ [?a],
           rnn_states = rnn_states s @ [squeeze h'],
           cell_states = cell_states s @ [squeeze c']\<rparr>"
    by (simp add: loop_body_def v l b pc hdp Let_def)
  moreover have "loop_inv B H NB n_pc n_hd (Suc k)
      \<lparr>h_t = squeeze h', c_t = squeeze c',
           logits_hd = logits_hd s @ [hdp],
           logits_pc = logits_pc s @ [pc],
           bottleneck_acts = bottleneck_acts s @ [?a],
           rnn_states = rnn_states s @ [squeeze h'],
           cell_states = cell_states s @ [squeeze c']\<rparr>"
    using inv sh sc sa spc shd by (simp add: loop_inv_def)
  ultimately show ?thesis
    by blast
qed

lemma for_loop_inv:
  assumes m: "shaped m E H NB n_pc n_hd" and B: "2 \<le> B" and H: "2 \<le> H"
    and ts: "list_all (\<lambda>t. shape t = [B, 3]) ts" and inv: "loop_inv B H NB n_pc n_hd k s"
  shows "\<exists>s'. for_loop (loop_body m keep B) ts s = Inr s' \<and> loop_inv B H NB n_pc n_hd (k + length ts) s'"
  using ts inv
proof (induction ts arbitrary: k s)
  case Nil
  then show ?case by simp
next
  case (Cons t ts)
  then have t: "shape t = [B, 3]" and ts: "list_all (\<lambda>t. shape t = [B, 3]) ts"
    by simp_all
  obtain s1 where s1: "loop_body m keep B s t = Inr s1" and i1: "loop_inv B H NB n_pc n_hd (Suc k) s1"
    using loop_body_inv[OF m B H t Cons.prems(2)] by blast
  obtain s' where "for_loop (loop_body m keep B) ts s1 = Inr s'"
    and "loop_inv B H NB n_pc n_hd (Suc k + length ts) s'"
    using Cons.IH[OF ts i1] by blast
  then show ?case
    using s1 by simp
qed

text \<open>
  The shapes of a forward call: for a sequence of \<open>T \<ge> 1\<close> steps, a batch of \<open>B \<ge> 2\<close>, a
  recurrent width \<open>H \<ge> 2\<close> and two initial-condition tensors whose widths add up to the
  embedding input width, the call returns five tensors whose leading dimension is \<open>T\<close>
  and whose per-step shapes are \<open>[B, n_hd]\<close>, \<open>[B, n_pc]\<close>, \<open>[B, NB]\<close>, \<open>[B, H]\<close> and
  \<open>[B, H]\<close>.
\<close>

lemma forward_shapes:
  assumes m: "shaped m E H NB n_pc n_hd" and B: "2 \<le> B" and H: "2 \<le> H" and T: "1 \<le> T"
    and x: "shape x = [T, B, 3]"
    and p0: "shape p0 = [B, w0]" and d0: "shape d0 = [B, w1]" and w: "w0 + w1 = E"
  shows "\<exists>o1 o2 o3 o4 o5. forward m keep x [p0, d0] = Inr (o1, o2, o3, o4, o5)
    \<and> shape o1 = [T, B, n_hd] \<and> shape o2 = [T, B, n_pc] \<and> shape o3 = [T, B, NB]
    \<and> shape o4 = [T, B, H] \<and> shape o5 = [T, B, H]"
proof -
  have bs: "py_index (shape x) (Suc 0) = Inr B"
    using x by (simp add: py_index_def)
  obtain init where init: "cat1 [p0, d0] = Inr init" and si: "shape init = [B, E]"
    using cat1_pair[OF p0 d0] w by auto
  have lin: "linear_shaped (state_embed m) E H" "linear_shaped (cell_embed m) E H"
    using m by (simp_all add: shaped_def)
  obtain h0 where h0: "linear_forward (state_embed m) init = Inr h0" and sh0: "shape h0 = [B, H]"
    using linear_forward_shape[OF lin(1), of init] si by auto
  obtain c0 where c0: "linear_forward (cell_embed m) init = Inr c0" and sc0: "shape c0 = [B, H]"
    using linear_forward_shape[OF lin(2), of init] si by auto
  let ?s0 = "\<lparr>h_t = h0, c_t = c0, logits_hd = [], logits_pc = [],
             bottleneck_acts = [], rnn_states = [], cell_states = []\<rparr>"
  have i0: "loop_inv B H NB n_pc n_hd 0 ?s0"
    using sh0 sc0 by (simp add: loop_inv_def)
  have ub: "length (unbind0 x) = T" "list_all (\<lambda>t. shape t = [B, 3]) (unbind0 x)"
    using unbind0_shape[OF x] by simp_all
  obtain s where s: "for_loop (loop_body m keep B) (unbind0 x) ?s0 = Inr s"
    and inv: "loop_inv B H NB n_pc n_hd T s"
    using for_loop_inv[OF m B H ub(2) i0, of keep] ub(1) by auto
  have ne: "logits_hd s \<noteq> []" "logits_pc s \<noteq> []" "bottleneck_acts s \<noteq> []"
    "rnn_states s \<noteq> []" "cell_states s \<noteq> []"
    using inv T by (auto simp: loop_inv_def)
  obtain o1 where o1: "stack (logits_hd s) = Inr o1" "shape o1 = [T, B, n_hd]"
    using stack_shape[OF ne(1), of "[B, n_hd]"] inv by (auto simp: loop_inv_def)
  obtain o2 where o2: "stack (logits_pc s) = Inr o2" "shape o2 = [T, B, n_pc]"
    using stack_shape[OF ne(2), of "[B, n_pc]"] inv by (auto simp: loop_inv_def)
  obtain o3 where o3: "stack (bottleneck_acts s) = Inr o3" "shape o3 = [T, B, NB]"
    using stack_shape[OF ne(3), of "[B, NB]"] inv by (auto simp: loop_inv_def)
  obtain o4 where o4: "stack (rnn_states s) = Inr o4" "shape o4 = [T, B, H]"
    using stack_shape[OF ne(4), of "[B, H]"] inv by (auto simp: loop_inv_def)
  obtain o5 where o5: "stack (cell_states s) = Inr o5" "shape o5 = [T, B, H]"
    using stack_shape[OF ne(5), of "[B, H]"] inv by (auto simp: loop_inv_def)
  have "forward m keep x [p0, d0] = Inr (o1, o2, o3, o4, o5)"
    by (simp add: forward_def bs init h0 c0 s o1 o2 o3 o4 o5)
  then show ?thesis
    using o1 o2 o3 o4 o5 by blast
qed

text \<open>With a batch of one, \<open>squeeze\<close> removes the batch dimension as well: the first
  iteration leaves states of shape \<open>[H]\<close>, and the second iteration hands the recurrent
  cell a two-dimensional state, which it refuses.\<close>

lemma loop_body_batch_one_first:
  assumes m: "shaped m E H NB n_pc n_hd" and H: "2 \<le> H"
    and t: "shape t = [1, 3]" and h: "shape (h_t s) = [1, H]" and c: "shape (c_t s) = [1, H]"
  shows "\<exists>s'. loop_body m keep 1 s t = Inr s' \<and> shape (h_t s') = [H] \<and> shape (c_t s') = [H]"
proof -
  have v: "view_1_b t (Suc 0) = Inr (t\<lparr>shape := [Suc 0, Suc 0, 3]\<rparr>)"
    using t view_1_b_ok[of 1 t 3] by (simp add: numel_def)
  obtain out h' c' where l: "lstm_forward (lstm m) (t\<lparr>shape := [Suc 0, Suc 0, 3]\<rparr>) (unsqueeze0 (h_t s), unsqueeze0 (c_t s)) = Inr (out, h', c')"
    and h': "shape h' = [1, 1, H]" and c': "shape c' = [1, 1, H]"
    using lstm_forward_shape[OF m, of "t\<lparr>shape := [Suc 0, Suc 0, 3]\<rparr>" "Suc 0" "Suc 0" "unsqueeze0 (h_t s)" "unsqueeze0 (c_t s)"] h c
    by (auto simp: unsqueeze0_def)
  have sh: "shape (squeeze h') = [H]" and sc: "shape (squeeze c') = [H]"
    using h' c' H by (simp_all add: squeeze_def)
  have lin: "linear_shaped (bottleneck m) H NB" "linear_shaped (pc_logits m) NB n_pc"
    "linear_shaped (hd_logits m) NB n_hd"
    using m by (simp_all add: shaped_def)
  obtain b where b: "linear_forward (bottleneck m) (squeeze h') = Inr b" and sb: "shape b = [NB]"
    using linear_forward_shape[OF lin(1), of "squeeze h'"] sh by auto
  let ?a = "dropout_forward (training m) (dropout m) (keep (length (logits_hd s))) b"
  have sa: "shape ?a = [NB]"
    using sb by simp
  obtain pc where pc: "linear_forward (pc_logits m) ?a = Inr pc"
    using linear_forward_shape[OF lin(2), of ?a] sa by auto
  obtain hdp where hdp: "linear_forward (hd_logits m) ?a = Inr hdp"
    using linear_forward_shape[OF lin(3), of ?a] sa by auto
  have "loop_body m keep 1 s t =
      Inr \<lparr>h_t = squeeze h', c_t = squeeze c',
           logits_hd = logits_hd s @ [hdp],
           logits_pc = logits_pc s @ [pc],
           bottleneck_acts = bottleneck_acts s @ [?a],
           rnn_states = rnn_states s @ [squeeze h'],
           cell_states = cell_states s @ [squeeze c']\<rparr>"
    using v l by (simp add: loop_body_def b pc hdp Let_def)
  then show ?thesis
    using sh sc by simp
qed

lemma loop_body_batch_one_second:
  assumes m: "shaped m E H NB n_pc n_hd" and t: "shape t = [1, 3]" and h: "shape (h_t s) = [H]"
  shows "loop_body m keep 1 s t = Inl RuntimeError"
proof -
  have v: "view_1_b t (Suc 0) = Inr (t\<lparr>shape := [Suc 0, Suc 0, 3]\<rparr>)"
    using t view_1_b_ok[of 1 t 3] by (simp add: numel_def)
  have "lstm_forward (lstm m) (t\<lparr>shape := [Suc 0, Suc 0, 3]\<rparr>) (unsqueeze0 (h_t s), unsqueeze0 (c_t s)) = Inl RuntimeError"
    using h by (intro lstm_forward_bad_state[OF m, of _ "Suc 0" "Suc 0"]) (simp_all add: unsqueeze0_def)
  then show ?thesis
    using v by (simp add: loop_body_def)
qed

lemma forward_batch_one_fails:
  assumes m: "shaped m E H NB n_pc n_hd" and H: "2 \<le> H" and T: "2 \<le> T"
    and x: "shape x = [T, 1, 3]"
    and p0: "shape p0 = [1, w0]" and d0: "shape d0 = [1, w1]" and w: "w0 + w1 = E"
  shows "forward m keep x [p0, d0] = Inl RuntimeError"
proof -
  have bs: "py_index (shape x) (Suc 0) = Inr 1"
    using x by (simp add: py_index_def)
  obtain init where init: "cat1 [p0, d0] = Inr init" and si: "shape init = [1, E]"
    using cat1_pair[OF p0 d0] w by auto
  have lin: "linear_shaped (state_embed m) E H" "linear_shaped (cell_embed m) E H"
    using m by (simp_all add: shaped_def)
  obtain h0 where h0: "linear_forward (state_embed m) init = Inr h0" and sh0: "shape h0 = [1, H]"
    using linear_forward_shape[OF lin(1), of init] si by auto
  obtain c0 where c0: "linear_forward (cell_embed m) init = Inr c0" and sc0: "shape c0 = [1, H]"
    using linear_forward_shape[OF lin(2), of init] si by auto
  let ?s0 = "\<lparr>h_t = h0, c_t = c0, logits_hd = [], logits_pc = [],
             bottleneck_acts = [], rnn_states = [], cell_states = []\<rparr>"
  have ub: "length (unbind0 x) = T" "list_all (\<lambda>t. shape t = [1, 3]) (unbind0 x)"
    using unbind0_shape[OF x] by simp_all
  then obtain t1 t2 ts where u: "unbind0 x = t1 # t2 # ts"
    using T by (cases "unbind0 x"; cases "tl (unbind0 x)") auto
  have st: "shape t1 = [1, 3]" "shape t2 = [1, 3]"
    using ub(2) u by simp_all
  obtain s1 where s1: "loop_body m keep 1 ?s0 t1 = Inr s1" and hs1: "shape (h_t s1) = [H]"
    using loop_body_batch_one_first[OF m H st(1), of ?s0 keep] sh0 sc0 by auto
  have s2: "loop_body m keep 1 s1 t2 = Inl RuntimeError"
    using m st(2) hs1 by (rule loop_body_batch_one_second)
  have "for_loop (loop_body m keep 1) (unbind0 x) ?s0 = Inl RuntimeError"
    using s1 s2 by (simp add: u)
  then show ?thesis
    using bs by (simp add: forward_def init h0 c0)
qed

text \<open>Initial conditions whose widths do not add up to the embedding input width are
  refused by the first linear layer.\<close>

lemma forward_width_mismatch:
  assumes m: "shaped m E H NB n_pc n_hd" and x: "shape x = [T, B, 3]"
    and p0: "shape p0 = [B, w0]" and d0: "shape d0 = [B, w1]" and w: "w0 + w1 \<noteq> E"
  shows "forward m keep x [p0, d0] = Inl RuntimeError"
proof -
  have bs: "py_index (shape x) (Suc 0) = Inr B"
    using x by (simp add: py_index_def)
  obtain init where init: "cat1 [p0, d0] = Inr init" and si: "shape init = [B, w0 + w1]"
    using cat1_pair[OF p0 d0] by auto
  have "linear_shaped (state_embed m) E H"
    using m by (simp add: shaped_def)
  then have "linear_forward (state_embed m) init = Inl RuntimeError"
    using si w by (intro linear_forward_mismatch) simp_all
  then show ?thesis
    by (simp add: forward_def bs init)
qed

text \<open>Once a tensor has been assigned over the flag of the recurrent cell, as loading
  does, a forward call whose shapes are all right raises \<open>TypeError\<close> in its first
  iteration.\<close>

lemma lstm_forward_flag_overwritten:
  assumes "shaped m E H NB n_pc n_hd"
    and "shape input = [len, b, 3]" and "shape h = [1, b, H]" and "shape c = [1, b, H]"
  shows "lstm_forward ((lstm m)\<lparr>lstm_weight := w, lstm_bias := Some t\<rparr>) input (h, c) = Inl TypeError"
  using assms by (simp add: lstm_forward_def shaped_def Let_def)

lemma forward_flag_overwritten:
  assumes m: "shaped m E H NB n_pc n_hd" and B: "1 \<le> B" and T: "1 \<le> T"
    and x: "shape x = [T, B, 3]"
    and p0: "shape p0 = [B, w0]" and d0: "shape d0 = [B, w1]" and w: "w0 + w1 = E"
  shows "forward (m\<lparr>lstm := (lstm m)\<lparr>lstm_weight := lw, lstm_bias := Some lb\<rparr>\<rparr>) keep x [p0, d0] = Inl TypeError"
proof -
  let ?m = "m\<lparr>lstm := (lstm m)\<lparr>lstm_weight := lw, lstm_bias := Some lb\<rparr>\<rparr>"
  have bs: "py_index (shape x) (Suc 0) = Inr B"
    using x by (simp add: py_index_def)
  obtain init where init: "cat1 [p0, d0] = Inr init" and si: "shape init = [B, E]"
    using cat1_pair[OF p0 d0] w by auto
  have lin: "linear_shaped (state_embed m) E H" "linear_shaped (cell_embed m) E H"
    using m by (simp_all add: shaped_def)
  obtain h0 where h0: "linear_forward (state_embed m) init = Inr h0" and sh0: "shape h0 = [B, H]"
    using linear_forward_shape[OF lin(1), of init] si by auto
  obtain c0 where c0: "linear_forward (cell_embed m) init = Inr c0" and sc0: "shape c0 = [B, H]"
    using linear_forward_shape[OF lin(2), of init] si by auto
  let ?s0 = "\<lparr>h_t = h0, c_t = c0, logits_hd = [], logits_pc = [],
             bottleneck_acts = [], rnn_states = [], cell_states = []\<rparr>"
  have ub: "length (unbind0 x) = T" "list_all (\<lambda>t. shape t = [B, 3]) (unbind0 x)"
    using unbind0_shape[OF x] by simp_all
  then obtain t1 ts where u: "unbind0 x = t1 # ts"
    using T by (cases "unbind0 x") auto
  have st: "shape t1 = [B, 3]"
    using ub(2) u by simp
  have v: "view_1_b t1 B = Inr (t1\<lparr>shape := [Suc 0, B, 3]\<rparr>)"
    using B st view_1_b_ok[of B t1 3] by (simp add: numel_def)
  have l: "lstm_forward ((lstm m)\<lparr>lstm_weight := lw, lstm_bias := Some lb\<rparr>)
      (t1\<lparr>shape := [Suc 0, B, 3]\<rparr>) (unsqueeze0 h0, unsqueeze0 c0) = Inl TypeError"
    using sh0 sc0
    by (intro lstm_forward_flag_overwritten[OF m, of _ "Suc 0" B]) (simp_all add: unsqueeze0_def)
  have "loop_body ?m keep B ?s0 t1 = Inl TypeError"
    using v l by (simp add: loop_body_def)
  then have "for_loop (loop_body ?m keep B) (unbind0 x) ?s0 = Inl TypeError"
    by (simp add: u)
  then show ?thesis
    using bs by (simp add: forward_def init h0 c0)
qed

lemma init_shaped:
  assumes "GridTorch_init r fs tes H NB NP ND p hb None = Inr m"
  shows "shaped m (NP + ND) H NB (n_cells (tes ! 0)) (n_cells (tes ! 1))"
  by (cases hb)
    (simp_all add: shaped_def linear_shaped_def init_None_fields[OF assms] lstm_parameters_def Let_def
      nn_Linear_def zeros_inplace_def)

lemma shaped_eval_mode: "shaped (eval_mode m) E H NB n_pc n_hd = shaped m E H NB n_pc n_hd"
  by (simp add: shaped_def eval_mode_def)

lemma shape_zeros [simp]: "shape (zeros s) = s"
  by (simp add: zeros_def)

text \<open>
  Claim C1 fails on its own scenario. The model has ensembles of 4 and 2 cells, recurrent
  and bottleneck width 8 and an embedding input width of 4 + 2; the sequence has length 5
  and the batch size is 1. The call raises \<open>RuntimeError\<close> in the second iteration, in
  training and in evaluation mode: \<^verbatim>\<open>squeeze()\<close> has turned the states of shape
  \<open>[1, 1, 8]\<close> into shape \<open>[8]\<close>, and the recurrent cell refuses the state of shape
  \<open>[1, 8]\<close> that \<^verbatim>\<open>unsqueeze(0)\<close> makes of it. With the constructor's default
  place-cell and head-direction-cell counts (256 and 12) the call fails earlier, in the
  state embedding, which expects width 268.
\<close>

theorem forward_batch_one_scenario_fails:
  "(case GridTorch_init (const_rng 1 0) no_files [\<lparr>n_cells = 4\<rparr>, \<lparr>n_cells = 2\<rparr>] 8 8 4 2 (1 / 2) False None of
      Inl e \<Rightarrow> False
    | Inr m \<Rightarrow>
        forward m keep_all (zeros [5, 1, 3]) [zeros [1, 4], zeros [1, 2]] = Inl RuntimeError
        \<and> forward (eval_mode m) keep_all (zeros [5, 1, 3]) [zeros [1, 4], zeros [1, 2]] = Inl RuntimeError)
   \<and> (case GridTorch_init (const_rng 1 0) no_files [\<lparr>n_cells = 4\<rparr>, \<lparr>n_cells = 2\<rparr>] 8 8 256 12 (1 / 2) False None of
      Inl e \<Rightarrow> False
    | Inr m \<Rightarrow>
        forward m keep_all (zeros [5, 1, 3]) [zeros [1, 4], zeros [1, 2]] = Inl RuntimeError)"
proof -
  let ?tes = "[\<lparr>n_cells = 4\<rparr>, \<lparr>n_cells = 2\<rparr>]"
  obtain m where m: "GridTorch_init (const_rng 1 0) no_files ?tes 8 8 4 2 (1 / 2) False None = Inr m"
    using init_None_ok[of ?tes "1 / 2"] by force
  have sm: "shaped m (4 + 2) 8 8 4 2"
    using init_shaped[OF m] by simp
  then have se: "shaped (eval_mode m) (4 + 2) 8 8 4 2"
    by (simp add: shaped_eval_mode)
  have a: "forward m keep_all (zeros [5, 1, 3]) [zeros [1, 4], zeros [1, 2]] = Inl RuntimeError"
    by (rule forward_batch_one_fails[OF sm, of 5 _ _ 4 _ 2]) simp_all
  have b: "forward (eval_mode m) keep_all (zeros [5, 1, 3]) [zeros [1, 4], zeros [1, 2]] = Inl RuntimeError"
    by (rule forward_batch_one_fails[OF se, of 5 _ _ 4 _ 2]) simp_all
  obtain m' where m': "GridTorch_init (const_rng 1 0) no_files ?tes 8 8 256 12 (1 / 2) False None = Inr m'"
    using init_None_ok[of ?tes "1 / 2"] by force
  have sm': "shaped m' (256 + 12) 8 8 4 2"
    using init_shaped[OF m'] by simp
  have c: "forward m' keep_all (zeros [5, 1, 3]) [zeros [1, 4], zeros [1, 2]] = Inl RuntimeError"
    by (rule forward_width_mismatch[OF sm', of _ 5 1 _ 4 _ 2]) simp_all
  show ?thesis
    using a b c by (simp add: m m')
qed

text \<open>
  For batches of at least two the claim holds: a model constructed without pretrained
  weights, with recurrent width at least two, returns five sequences of the length of the
  input, with the widths of claim C1 at every step.
\<close>

lemma forward_shapes_fresh_model:
  assumes "GridTorch_init r fs tes H NB NP ND p hb None = Inr m"
    and "2 \<le> B" and "2 \<le> H" and "1 \<le> T"
    and "shape x = [T, B, 3]" and "shape p0 = [B, NP]" and "shape d0 = [B, ND]"
  shows "\<exists>o1 o2 o3 o4 o5. forward m keep x [p0, d0] = Inr (o1, o2, o3, o4, o5)
    \<and> shape o1 = [T, B, n_cells (tes ! 1)] \<and> shape o2 = [T, B, n_cells (tes ! 0)]
    \<and> shape o3 = [T, B, NB] \<and> shape o4 = [T, B, H] \<and> shape o5 = [T, B, H]"
  using forward_shapes[OF init_shaped[OF assms(1)] assms(2-7)] by simp

lemma forward_shapes_batch_two_example:
  "\<exists>m o1 o2 o3 o4 o5.
     GridTorch_init (const_rng 1 0) no_files [\<lparr>n_cells = 4\<rparr>, \<lparr>n_cells = 2\<rparr>] 8 8 4 2 (1 / 2) False None = Inr m
     \<and> forward m keep_all (zeros [5, 2, 3]) [zeros [2, 4], zeros [2, 2]] = Inr (o1, o2, o3, o4, o5)
     \<and> shape o1 = [5, 2, 2] \<and> shape o2 = [5, 2, 4] \<and> shape o3 = [5, 2, 8]
     \<and> shape o4 = [5, 2, 8] \<and> shape o5 = [5, 2, 8]"
proof -
  let ?tes = "[\<lparr>n_cells = 4\<rparr>, \<lparr>n_cells = 2\<rparr>]"
  obtain m where m: "GridTorch_init (const_rng 1 0) no_files ?tes 8 8 4 2 (1 / 2) False None = Inr m"
    using init_None_ok[of ?tes "1 / 2"] by force
  show ?thesis
    using m forward_shapes_fresh_model[OF m, of 2 5 "zeros [5, 2, 3]" "zeros [2, 4]" "zeros [2, 2]" keep_all]
    by simp
qed

text \<open>
  Claim C6. In evaluation mode the dropout module returns its input, so the outputs of a
  forward call, all five sequences or the exception raised, do not depend on the masks
  the random number generator would supply: two calls on the same model with the same
  input sequence and initial conditions return the same.
\<close>

theorem forward_deterministic_in_eval_mode:
  assumes "training m = False"
  shows "forward m keep x initial_conds = forward m keep' x initial_conds"
proof -
  have e: "loop_body m keep bs = loop_body m keep' bs" for bs
    using assms by (intro loop_body_eval) simp
  show ?thesis
    unfolding forward_def e by (rule refl)
qed

theorem forward_deterministic_in_eval_mode_witness:
  "training (eval_mode example_model) = False
   \<and> forward (eval_mode example_model) keep_all (zeros [3, 2, 3]) [zeros [2, 1], zeros [2, 1]]
       = forward (eval_mode example_model) drop_all (zeros [3, 2, 3]) [zeros [2, 1], zeros [2, 1]]"
proof -
  have h: "training (eval_mode example_model) = False"
    by (simp add: eval_mode_def)
  show ?thesis
    using h forward_deterministic_in_eval_mode [OF h, of keep_all "zeros [3, 2, 3]" "[zeros [2, 1], zeros [2, 1]]" drop_all]
    by simp
qed

end
